theory Spec2Isabelle
  imports Main
begin

section \<open>Errors (kafka/common.py)\<close>

text \<open>
  The exception classes of \<^verbatim>\<open>kafka/common.py\<close>: every subclass of
  \<^verbatim>\<open>BrokerResponseError\<close> (they populate \<^verbatim>\<open>kafka_errors\<close>), the
  \<^verbatim>\<open>KafkaError\<close> subclasses the coordinator can meet, and \<open>OtherException\<close> for
  every exception that is no \<^verbatim>\<open>KafkaError\<close> (it has no \<^verbatim>\<open>retriable\<close>
  attribute).
\<close>

datatype error_class =
    NoError
  | UnknownError
  | OffsetOutOfRangeError
  | InvalidMessageError
  | UnknownTopicOrPartitionError
  | InvalidFetchRequestError
  | LeaderNotAvailableError
  | NotLeaderForPartitionError
  | RequestTimedOutError
  | BrokerNotAvailableError
  | ReplicaNotAvailableError
  | MessageSizeTooLargeError
  | StaleControllerEpochError
  | OffsetMetadataTooLargeError
  | StaleLeaderEpochCodeError
  | GroupLoadInProgressError
  | GroupCoordinatorNotAvailableError
  | NotCoordinatorForGroupError
  | InvalidTopicError
  | RecordListTooLargeError
  | NotEnoughReplicasError
  | NotEnoughReplicasAfterAppendError
  | InvalidRequiredAcksError
  | IllegalGenerationError
  | InconsistentGroupProtocolError
  | InvalidGroupIdError
  | UnknownMemberIdError
  | InvalidSessionTimeoutError
  | RebalanceInProgressError
  | InvalidCommitOffsetSizeError
  | TopicAuthorizationFailedError
  | GroupAuthorizationFailedError
  | ClusterAuthorizationFailedError
  | IllegalStateError
  | NoBrokersAvailable
  | NodeNotReadyError
  | CorrelationIdError
  | Cancelled
  | TooManyInFlightRequests
  | StaleMetadata
  | ConnectionError
  | OtherException string

text \<open>The class attribute \<^verbatim>\<open>errno\<close> of the broker errors.\<close>

fun errno :: "error_class \<Rightarrow> int option" where
  "errno NoError = Some 0"
| "errno UnknownError = Some (- 1)"
| "errno OffsetOutOfRangeError = Some 1"
| "errno InvalidMessageError = Some 2"
| "errno UnknownTopicOrPartitionError = Some 3"
| "errno InvalidFetchRequestError = Some 4"
| "errno LeaderNotAvailableError = Some 5"
| "errno NotLeaderForPartitionError = Some 6"
| "errno RequestTimedOutError = Some 7"
| "errno BrokerNotAvailableError = Some 8"
| "errno ReplicaNotAvailableError = Some 9"
| "errno MessageSizeTooLargeError = Some 10"
| "errno StaleControllerEpochError = Some 11"
| "errno OffsetMetadataTooLargeError = Some 12"
| "errno StaleLeaderEpochCodeError = Some 13"
| "errno GroupLoadInProgressError = Some 14"
| "errno GroupCoordinatorNotAvailableError = Some 15"
| "errno NotCoordinatorForGroupError = Some 16"
| "errno InvalidTopicError = Some 17"
| "errno RecordListTooLargeError = Some 18"
| "errno NotEnoughReplicasError = Some 19"
| "errno NotEnoughReplicasAfterAppendError = Some 20"
| "errno InvalidRequiredAcksError = Some 21"
| "errno IllegalGenerationError = Some 22"
| "errno InconsistentGroupProtocolError = Some 23"
| "errno InvalidGroupIdError = Some 24"
| "errno UnknownMemberIdError = Some 25"
| "errno InvalidSessionTimeoutError = Some 26"
| "errno RebalanceInProgressError = Some 27"
| "errno InvalidCommitOffsetSizeError = Some 28"
| "errno TopicAuthorizationFailedError = Some 29"
| "errno GroupAuthorizationFailedError = Some 30"
| "errno ClusterAuthorizationFailedError = Some 31"
| "errno _ = None"

text \<open>
  The class attribute \<^verbatim>\<open>retriable\<close>: \<^verbatim>\<open>False\<close> in \<^verbatim>\<open>KafkaError\<close>, overridden
  to \<^verbatim>\<open>True\<close> by the classes listed here.
\<close>

fun retriable :: "error_class \<Rightarrow> bool" where
  "retriable NoBrokersAvailable = True"
| "retriable NodeNotReadyError = True"
| "retriable CorrelationIdError = True"
| "retriable Cancelled = True"
| "retriable TooManyInFlightRequests = True"
| "retriable StaleMetadata = True"
| "retriable LeaderNotAvailableError = True"
| "retriable NotLeaderForPartitionError = True"
| "retriable RequestTimedOutError = True"
| "retriable GroupLoadInProgressError = True"
| "retriable GroupCoordinatorNotAvailableError = True"
| "retriable NotCoordinatorForGroupError = True"
| "retriable ConnectionError = True"
| "retriable _ = False"

text \<open>
  \<^verbatim>\<open>kafka_errors = dict([(x.errno, x) for x in _iter_broker_errors()])\<close>: the
  subclasses of \<^verbatim>\<open>BrokerResponseError\<close>, keyed by \<^verbatim>\<open>errno\<close> (the keys are
  pairwise distinct, so the order of the pairs does not matter).
\<close>

definition broker_errors :: "error_class list" where
  "broker_errors =
    [NoError, UnknownError, OffsetOutOfRangeError, InvalidMessageError,
     UnknownTopicOrPartitionError, InvalidFetchRequestError, LeaderNotAvailableError,
     NotLeaderForPartitionError, RequestTimedOutError, BrokerNotAvailableError,
     ReplicaNotAvailableError, MessageSizeTooLargeError, StaleControllerEpochError,
     OffsetMetadataTooLargeError, StaleLeaderEpochCodeError, GroupLoadInProgressError,
     GroupCoordinatorNotAvailableError, NotCoordinatorForGroupError, InvalidTopicError,
     RecordListTooLargeError, NotEnoughReplicasError, NotEnoughReplicasAfterAppendError,
     InvalidRequiredAcksError, IllegalGenerationError, InconsistentGroupProtocolError,
     InvalidGroupIdError, UnknownMemberIdError, InvalidSessionTimeoutError,
     RebalanceInProgressError, InvalidCommitOffsetSizeError, TopicAuthorizationFailedError,
     GroupAuthorizationFailedError, ClusterAuthorizationFailedError]"

definition kafka_errors :: "int \<rightharpoonup> error_class" where
  "kafka_errors = map_of (map (\<lambda>x. (the (errno x), x)) broker_errors)"

text \<open>\<^verbatim>\<open>for_code(error_code) = kafka_errors.get(error_code, UnknownError)\<close>\<close>

definition for_code :: "int \<Rightarrow> error_class" where
  "for_code error_code = (case kafka_errors error_code of Some x \<Rightarrow> x | None \<Rightarrow> UnknownError)"

text \<open>
  What a handler hands to \<^verbatim>\<open>future.failure\<close>: an exception instance (its class and
  the constructor's arguments) or, as \<^verbatim>\<open>_handle_heartbeat_response\<close> does for
  \<^verbatim>\<open>UnknownMemberIdError\<close>, the class object itself.
\<close>

type_synonym bytes = string

record response =
  error_code :: int
  generation_id :: int
  resp_member_id :: string
  leader_id :: string
  group_protocol :: string
  members :: "(string \<times> bytes) list"
  member_assignment :: bytes
  resp_coordinator_id :: int

datatype exc_arg = ArgStr string | ArgNode "int option" | ArgResponse response

datatype failure = Instance error_class "exc_arg list" | BareClass error_class

fun failure_class :: "failure \<Rightarrow> error_class" where
  "failure_class (Instance cls args) = cls"
| "failure_class (BareClass cls) = cls"

text \<open>
  \<^verbatim>\<open>isinstance(exception, classes)\<close>: none of the classes tested in
  \<^verbatim>\<open>ensure_active_group\<close> has a subclass, and a class object is an instance of none.
\<close>

fun isinstance :: "failure \<Rightarrow> error_class list \<Rightarrow> bool" where
  "isinstance (Instance cls args) classes = (cls \<in> set classes)"
| "isinstance (BareClass cls) classes = False"

section \<open>Collaborators that are not part of the coordinator\<close>

text \<open>
  Modelled from the spec: \<^verbatim>\<open>kafka.future.Future\<close> is missing from the sources. The
  spec describes it as a one-shot completion cell: exactly one of success(value) and
  failure(error) is ever delivered. \<open>Pending\<close> is the cell before delivery.
  \<^verbatim>\<open>future.retriable()\<close> reads the \<^verbatim>\<open>retriable\<close> attribute of the delivered error.
\<close>

datatype 'a future = Pending | Succeeded 'a | Failed failure

definition future_retriable :: "failure \<Rightarrow> bool" where
  "future_retriable e = retriable (failure_class e)"

text \<open>
  The requests of \<^verbatim>\<open>kafka.protocol\<close> (missing from the sources), with the
  arguments \<^verbatim>\<open>base.py\<close> passes to their constructors, and the two sentinels
  \<^verbatim>\<open>JoinGroupRequest.UNKNOWN_MEMBER_ID\<close> and
  \<^verbatim>\<open>OffsetCommitRequest.DEFAULT_GENERATION_ID\<close>, whose values the spec gives.
\<close>

datatype request =
    JoinGroupRequest string int string string "(string \<times> bytes) list"
  | SyncGroupRequest string int string "(string \<times> bytes) list"
  | HeartbeatRequest string int string
  | LeaveGroupRequest string string
  | GroupCoordinatorRequest string

definition UNKNOWN_MEMBER_ID :: string where
  "UNKNOWN_MEMBER_ID = []"

definition DEFAULT_GENERATION_ID :: int where
  "DEFAULT_GENERATION_ID = - 1"

text \<open>
  What the coordinator does to the outside, in the order it does it: requests handed to
  \<^verbatim>\<open>client.send\<close> (with the node), calls of the subclass hooks, calls of
  \<^verbatim>\<open>time.sleep\<close> (in milliseconds) and metadata refreshes.
\<close>

datatype event =
    Sent "int option" request
  | OnJoinPrepare int string
  | PerformAssignment string string "(string \<times> bytes) list"
  | OnJoinComplete int string string bytes
  | Sleep int
  | RequestUpdate

text \<open>What the transport answers to a request: a response, or a failure of the send.\<close>

datatype reply = Delivered response | SendFailed failure

text \<open>The kinds of request whose answer a blocking call waits for.\<close>

datatype api = GroupCoordinatorApi | JoinGroupApi | SyncGroupApi | LeaveGroupApi

text \<open>
  Modelled from the spec: the \<^verbatim>\<open>ClientTransport\<close> collaborator (the client object is
  missing from the sources). \<open>is_disconnected\<close> and \<open>ready\<close> are its connection
  predicates; \<open>replies\<close> is the script of answers it will deliver to the requests of the
  blocking calls, one queue for each kind of request (the transport matches a response to
  its request), in order; \<open>in_flight_heartbeats\<close> counts the heartbeat requests sent and
  not yet answered; \<open>scheduled\<close> is the scheduler's entry for the heartbeat task (the task
  is registered under a key identifying it, so there is at most one pending firing).
\<close>

record client =
  is_disconnected :: "int \<Rightarrow> bool"
  ready :: "int \<Rightarrow> bool"
  least_loaded_node :: "int option"
  add_group_coordinator :: "response \<Rightarrow> bool"
  replies :: "api \<Rightarrow> reply list"
  in_flight_heartbeats :: nat
  scheduled :: "int option"

text \<open>
  Modelled from the spec: the \<^verbatim>\<open>Heartbeat\<close> clock of \<^verbatim>\<open>heartbeat.py\<close> (missing from
  the sources), with the three markers and the derived predicates of the spec's data
  model. Times are integers, in milliseconds.
\<close>

record heartbeat =
  hb_interval :: int
  hb_timeout :: int
  last_session_reset :: int
  last_send :: int
  last_receive :: int

definition session_expired :: "heartbeat \<Rightarrow> int \<Rightarrow> bool" where
  "session_expired hb now = (now - last_receive hb \<ge> hb_timeout hb)"

definition should_heartbeat :: "heartbeat \<Rightarrow> int \<Rightarrow> bool" where
  "should_heartbeat hb now = (now - last_send hb \<ge> hb_interval hb)"

definition ttl :: "heartbeat \<Rightarrow> int \<Rightarrow> int" where
  "ttl hb now = max 0 (hb_interval hb - (now - last_send hb))"

definition reset_session_timeout :: "heartbeat \<Rightarrow> int \<Rightarrow> heartbeat" where
  "reset_session_timeout hb now = hb\<lparr>last_receive := now\<rparr>"

definition sent_heartbeat :: "heartbeat \<Rightarrow> int \<Rightarrow> heartbeat" where
  "sent_heartbeat hb now = hb\<lparr>last_send := now\<rparr>"

definition received_heartbeat :: "heartbeat \<Rightarrow> int \<Rightarrow> heartbeat" where
  "received_heartbeat hb now = hb\<lparr>last_receive := now\<rparr>"

section \<open>The coordinator (kafka/coordinator/base.py)\<close>

record config =
  cfg_group_id :: string
  session_timeout_ms :: int
  heartbeat_interval_ms :: int
  retry_backoff_ms :: int

definition DEFAULT_CONFIG :: config where
  "DEFAULT_CONFIG =
    \<lparr>cfg_group_id = ''kafka-python-default-group'', session_timeout_ms = 30000,
     heartbeat_interval_ms = 3000, retry_backoff_ms = 100\<rparr>"

record heartbeat_task =
  request_in_flight :: bool

text \<open>
  The attributes of \<^verbatim>\<open>BaseCoordinator\<close>. \<open>protocol\<close> is not assigned by
  \<^verbatim>\<open>__init__\<close>: it is \<open>None\<close> until a JoinGroup response sets it. The abstract methods
  \<^verbatim>\<open>protocol_type\<close>, \<^verbatim>\<open>group_protocols\<close> and \<^verbatim>\<open>_perform_assignment\<close> are
  fields: what the subclass returns (metadata already as bytes; an assignment, or the
  exception raised). \<open>time_now\<close> is \<^verbatim>\<open>time.time()\<close> and \<open>trace\<close> the events so far.
\<close>

record coordinator =
  config :: config
  client :: client
  generation :: int
  member_id :: string
  group_id :: string
  coordinator_id :: "int option"
  rejoin_needed :: bool
  needs_join_prepare :: bool
  protocol :: "string option"
  heartbeat :: heartbeat
  heartbeat_task :: heartbeat_task
  protocol_type :: string
  group_protocols :: "(string \<times> bytes) list"
  perform_assignment ::
    "string \<Rightarrow> string \<Rightarrow> (string \<times> bytes) list \<Rightarrow> failure + (string \<times> bytes) list"
  time_now :: int
  trace :: "event list"

text \<open>
  \<^verbatim>\<open>BaseCoordinator.__init__\<close>, with the transport, the subclass and the time of
  creation as arguments. The clock's markers start at the time of creation.
\<close>

definition init ::
  "config \<Rightarrow> client \<Rightarrow> string \<Rightarrow> (string \<times> bytes) list \<Rightarrow>
   (string \<Rightarrow> string \<Rightarrow> (string \<times> bytes) list \<Rightarrow> failure + (string \<times> bytes) list) \<Rightarrow>
   int \<Rightarrow> coordinator" where
  "init cfg cl ptype protos assign t =
    \<lparr>config = cfg, client = cl, generation = DEFAULT_GENERATION_ID,
     member_id = UNKNOWN_MEMBER_ID, group_id = cfg_group_id cfg, coordinator_id = None,
     rejoin_needed = True, needs_join_prepare = True, protocol = None,
     heartbeat = \<lparr>hb_interval = heartbeat_interval_ms cfg, hb_timeout = session_timeout_ms cfg,
                  last_session_reset = t, last_send = t, last_receive = t\<rparr>,
     heartbeat_task = \<lparr>request_in_flight = False\<rparr>,
     protocol_type = ptype, group_protocols = protos, perform_assignment = assign,
     time_now = t, trace = []\<rparr>"

text \<open>The transport's operations, on the coordinator that owns the client.\<close>

definition client_send :: "int option \<Rightarrow> request \<Rightarrow> coordinator \<Rightarrow> coordinator" where
  "client_send node req c = c\<lparr>trace := trace c @ [Sent node req]\<rparr>"

definition client_schedule :: "int \<Rightarrow> coordinator \<Rightarrow> coordinator" where
  "client_schedule at c = c\<lparr>client := (client c)\<lparr>scheduled := Some at\<rparr>\<rparr>"

text \<open>Both callers catch the \<^verbatim>\<open>KeyError\<close> of a task that is not scheduled.\<close>

definition client_unschedule :: "coordinator \<Rightarrow> coordinator" where
  "client_unschedule c = c\<lparr>client := (client c)\<lparr>scheduled := None\<rparr>\<rparr>"

definition coordinator_dead :: "coordinator \<Rightarrow> coordinator" where
  "coordinator_dead c = (if coordinator_id c \<noteq> None then c\<lparr>coordinator_id := None\<rparr> else c)"

definition coordinator_unknown :: "coordinator \<Rightarrow> bool \<times> coordinator" where
  "coordinator_unknown c =
    (case coordinator_id c of
       None \<Rightarrow> (True, c)
     | Some node \<Rightarrow>
         if is_disconnected (client c) node then (True, coordinator_dead c)
         else (\<not> ready (client c) node, c))"

definition need_rejoin :: "coordinator \<Rightarrow> bool" where
  "need_rejoin c = rejoin_needed c"

definition failed_request :: "failure \<Rightarrow> coordinator \<Rightarrow> 'a future \<times> coordinator" where
  "failed_request error c = (Failed error, coordinator_dead c)"

text \<open>
  \<^verbatim>\<open>client.poll(future=future)\<close> for a future whose request has been sent: the next
  scripted reply to a request of this kind goes to the callback (a response) or to the errback
  \<^verbatim>\<open>_failed_request\<close> (a failed send). With no reply left the call never returns:
  \<open>None\<close>. A future that is already done is left as it is.
\<close>

definition await ::
  "api \<Rightarrow> (response \<Rightarrow> coordinator \<Rightarrow> 'a future \<times> coordinator) \<Rightarrow> 'a future \<times> coordinator \<Rightarrow>
   ('a future \<times> coordinator) option" where
  "await kind handler fc =
    (case fst fc of
       Pending \<Rightarrow>
         (case replies (client (snd fc)) kind of
            [] \<Rightarrow> None
          | r # rs \<Rightarrow>
              (let c1 = (snd fc)\<lparr>client := (client (snd fc))
                          \<lparr>replies := (replies (client (snd fc)))(kind := rs)\<rparr>\<rparr> in
               Some (case r of
                       Delivered resp \<Rightarrow> handler resp c1
                     | SendFailed e \<Rightarrow> failed_request e c1)))
     | _ \<Rightarrow> Some fc)"

subsection \<open>The heartbeat task\<close>

definition HeartbeatTask_reset :: "coordinator \<Rightarrow> coordinator" where
  "HeartbeatTask_reset c =
    (let c1 = c\<lparr>heartbeat := reset_session_timeout (heartbeat c) (time_now c)\<rparr>;
         c2 = client_unschedule c1
     in if \<not> request_in_flight (heartbeat_task c2) then client_schedule (time_now c2) c2
        else c2)"

definition send_heartbeat_request :: "coordinator \<Rightarrow> coordinator" where
  "send_heartbeat_request c =
    (let request = HeartbeatRequest (group_id c) (generation c) (member_id c);
         c1 = client_send (coordinator_id c) request c
     in c1\<lparr>client := (client c1)\<lparr>in_flight_heartbeats := Suc (in_flight_heartbeats (client c1))\<rparr>\<rparr>)"

definition HeartbeatTask_call :: "coordinator \<Rightarrow> coordinator" where
  "HeartbeatTask_call c =
    (if generation c < 0 \<or> need_rejoin c then c
     else
       (let (unknown, c1) = coordinator_unknown c in
        if unknown then c1
        else if session_expired (heartbeat c1) (time_now c1) then coordinator_dead c1
        else if \<not> should_heartbeat (heartbeat c1) (time_now c1) then
          client_schedule (time_now c1 + ttl (heartbeat c1) (time_now c1)) c1
        else
          (let c2 = c1\<lparr>heartbeat := sent_heartbeat (heartbeat c1) (time_now c1)\<rparr>;
               c3 = c2\<lparr>heartbeat_task := (heartbeat_task c2)\<lparr>request_in_flight := True\<rparr>\<rparr>
           in send_heartbeat_request c3)))"

definition handle_heartbeat_success :: "coordinator \<Rightarrow> coordinator" where
  "handle_heartbeat_success c =
    (let c1 = c\<lparr>heartbeat_task := (heartbeat_task c)\<lparr>request_in_flight := False\<rparr>\<rparr>;
         c2 = c1\<lparr>heartbeat := received_heartbeat (heartbeat c1) (time_now c1)\<rparr>
     in client_schedule (time_now c2 + ttl (heartbeat c2) (time_now c2)) c2)"

definition handle_heartbeat_failure :: "coordinator \<Rightarrow> coordinator" where
  "handle_heartbeat_failure c =
    (let c1 = c\<lparr>heartbeat_task := (heartbeat_task c)\<lparr>request_in_flight := False\<rparr>\<rparr>
     in client_schedule (time_now c1 + retry_backoff_ms (config c1)) c1)"

definition handle_heartbeat_response :: "response \<Rightarrow> coordinator \<Rightarrow> unit future \<times> coordinator" where
  "handle_heartbeat_response resp c =
    (let error_type = for_code (error_code resp) in
     if error_type = NoError then (Succeeded (), c)
     else if error_type = GroupCoordinatorNotAvailableError \<or>
             error_type = NotCoordinatorForGroupError then
       (Failed (Instance error_type []), coordinator_dead c)
     else if error_type = RebalanceInProgressError then
       (Failed (Instance error_type []), c\<lparr>rejoin_needed := True\<rparr>)
     else if error_type = IllegalGenerationError then
       (Failed (Instance error_type []), c\<lparr>rejoin_needed := True\<rparr>)
     else if error_type = UnknownMemberIdError then
       (Failed (BareClass error_type), c\<lparr>member_id := UNKNOWN_MEMBER_ID, rejoin_needed := True\<rparr>)
     else if error_type = GroupAuthorizationFailedError then
       (Failed (Instance error_type [ArgStr (group_id c)]), c)
     else (Failed (Instance error_type []), c))"

text \<open>
  The transport answers an outstanding heartbeat request: the response handler (or
  \<^verbatim>\<open>_failed_request\<close>) completes the future, whose callbacks are the task's
  \<^verbatim>\<open>_handle_heartbeat_success\<close> and \<^verbatim>\<open>_handle_heartbeat_failure\<close>. Nothing happens
  when no heartbeat request is outstanding.
\<close>

definition heartbeat_reply :: "reply \<Rightarrow> coordinator \<Rightarrow> coordinator" where
  "heartbeat_reply r c =
    (if in_flight_heartbeats (client c) = 0 then c
     else
       (let c0 = c\<lparr>client := (client c)\<lparr>in_flight_heartbeats := in_flight_heartbeats (client c) - 1\<rparr>\<rparr>;
            fc = (case r of
                    Delivered resp \<Rightarrow> handle_heartbeat_response resp c0
                  | SendFailed e \<Rightarrow> failed_request e c0)
        in case fst fc of
             Succeeded v \<Rightarrow> handle_heartbeat_success (snd fc)
           | Failed e \<Rightarrow> handle_heartbeat_failure (snd fc)
           | Pending \<Rightarrow> snd fc))"

text \<open>The scheduler fires the task when its entry is due, and removes the entry.\<close>

definition fire :: "coordinator \<Rightarrow> coordinator" where
  "fire c =
    (case scheduled (client c) of
       None \<Rightarrow> c
     | Some at \<Rightarrow> if at \<le> time_now c then HeartbeatTask_call (client_unschedule c) else c)"

subsection \<open>JoinGroup and SyncGroup\<close>

definition handle_sync_group_response :: "response \<Rightarrow> coordinator \<Rightarrow> bytes future \<times> coordinator" where
  "handle_sync_group_response resp c =
    (let error_type = for_code (error_code resp) in
     if error_type = NoError then (Succeeded (member_assignment resp), c)
     else
       (let c1 = c\<lparr>rejoin_needed := True\<rparr> in
        if error_type = GroupAuthorizationFailedError then
          (Failed (Instance error_type [ArgStr (group_id c1)]), c1)
        else if error_type = RebalanceInProgressError then
          (Failed (Instance error_type [ArgStr (group_id c1)]), c1)
        else if error_type = UnknownMemberIdError \<or> error_type = IllegalGenerationError then
          (Failed (Instance error_type []), c1\<lparr>member_id := UNKNOWN_MEMBER_ID\<rparr>)
        else if error_type = GroupCoordinatorNotAvailableError \<or>
                error_type = NotCoordinatorForGroupError then
          (Failed (Instance error_type []), coordinator_dead c1)
        else (Failed (Instance error_type []), c1)))"

definition send_sync_group_request :: "request \<Rightarrow> coordinator \<Rightarrow> bytes future \<times> coordinator" where
  "send_sync_group_request request c =
    (let (unknown, c1) = coordinator_unknown c in
     if unknown then (Failed (Instance GroupCoordinatorNotAvailableError []), c1)
     else (Pending, client_send (coordinator_id c1) request c1))"

definition on_join_follower :: "coordinator \<Rightarrow> bytes future \<times> coordinator" where
  "on_join_follower c =
    send_sync_group_request (SyncGroupRequest (group_id c) (generation c) (member_id c) []) c"

definition on_join_leader :: "response \<Rightarrow> coordinator \<Rightarrow> bytes future \<times> coordinator" where
  "on_join_leader resp c =
    (let c1 = c\<lparr>trace := trace c @
                 [PerformAssignment (leader_id resp) (group_protocol resp) (members resp)]\<rparr>
     in case perform_assignment c1 (leader_id resp) (group_protocol resp) (members resp) of
          Inl e \<Rightarrow> (Failed e, c1)
        | Inr group_assignment \<Rightarrow>
            send_sync_group_request
              (SyncGroupRequest (group_id c1) (generation c1) (member_id c1) group_assignment) c1)"

definition handle_join_group_response :: "response \<Rightarrow> coordinator \<Rightarrow> bytes future \<times> coordinator" where
  "handle_join_group_response resp c =
    (let error_type = for_code (error_code resp) in
     if error_type = NoError then
       (let c1 = c\<lparr>member_id := resp_member_id resp, generation := generation_id resp,
                   rejoin_needed := False, protocol := Some (group_protocol resp)\<rparr>
        in if leader_id resp = resp_member_id resp then on_join_leader resp c1
           else on_join_follower c1)
     else if error_type = GroupLoadInProgressError then
       (Failed (Instance error_type [ArgResponse resp]), c)
     else if error_type = UnknownMemberIdError then
       (Failed (Instance error_type [ArgStr (member_id c)]), c\<lparr>member_id := UNKNOWN_MEMBER_ID\<rparr>)
     else if error_type = GroupCoordinatorNotAvailableError \<or>
             error_type = NotCoordinatorForGroupError then
       (Failed (Instance error_type []), coordinator_dead c)
     else if error_type = InconsistentGroupProtocolError \<or>
             error_type = InvalidSessionTimeoutError \<or>
             error_type = InvalidGroupIdError then
       (Failed (Instance error_type [ArgResponse resp]), c)
     else if error_type = GroupAuthorizationFailedError then
       (Failed (Instance error_type [ArgStr (group_id c)]), c)
     else (Failed (Instance error_type []), c))"

definition perform_group_join :: "coordinator \<Rightarrow> bytes future \<times> coordinator" where
  "perform_group_join c =
    (let (unknown, c1) = coordinator_unknown c in
     if unknown then
       (Failed (Instance GroupCoordinatorNotAvailableError [ArgNode (coordinator_id c1)]), c1)
     else
       (let request = JoinGroupRequest (group_id c1) (session_timeout_ms (config c1))
                        (member_id c1) (protocol_type c1) (group_protocols c1)
        in (Pending, client_send (coordinator_id c1) request c1)))"

text \<open>
  \<^verbatim>\<open>client.poll(future=future)\<close> for the future of \<^verbatim>\<open>_perform_group_join\<close>: the
  JoinGroup reply first and then, when its handler has sent a SyncGroup request whose
  future is chained to this one, the SyncGroup reply.
\<close>

definition poll_group_join :: "bytes future \<times> coordinator \<Rightarrow> (bytes future \<times> coordinator) option" where
  "poll_group_join fc =
    (case await JoinGroupApi handle_join_group_response fc of
       None \<Rightarrow> None
     | Some fc1 \<Rightarrow> await SyncGroupApi handle_sync_group_response fc1)"

subsection \<open>Coordinator discovery\<close>

definition handle_group_coordinator_response ::
  "response \<Rightarrow> coordinator \<Rightarrow> int option future \<times> coordinator" where
  "handle_group_coordinator_response resp c =
    (let (unknown, c1) = coordinator_unknown c in
     if \<not> unknown then (Succeeded (coordinator_id c1), c1)
     else
       (let error_type = for_code (error_code resp) in
        if error_type = NoError then
          (if \<not> add_group_coordinator (client c1) resp then
             (Failed (Instance IllegalStateError []), c1)
           else
             (let c2 = c1\<lparr>coordinator_id := Some (resp_coordinator_id resp)\<rparr>;
                  c3 = (if generation c2 > 0 then HeartbeatTask_reset c2 else c2)
              in (Succeeded (coordinator_id c3), c3)))
        else if error_type = GroupCoordinatorNotAvailableError then
          (Failed (Instance error_type []), c1)
        else if error_type = GroupAuthorizationFailedError then
          (Failed (Instance error_type [ArgStr (group_id c1)]), c1)
        else (Failed (Instance error_type []), c1)))"

definition send_group_metadata_request :: "coordinator \<Rightarrow> int option future \<times> coordinator" where
  "send_group_metadata_request c =
    (case least_loaded_node (client c) of
       None \<Rightarrow> (Failed (Instance NoBrokersAvailable []), c)
     | Some node_id \<Rightarrow>
         if \<not> ready (client c) node_id then (Failed (Instance NoBrokersAvailable []), c)
         else (Pending, client_send (Some node_id) (GroupCoordinatorRequest (group_id c)) c))"

text \<open>
  How a blocking call ends: it returns, or it raises. The state it leaves is kept in both
  cases. A call that never ends is the value \<open>None\<close> of the functions below, which run
  their loops on fuel: one unit for each test of a loop's condition. The connection
  predicates of the transport do not change during a call, so \<^verbatim>\<open>client.poll()\<close> with
  no future changes nothing (waiting for a connection that does not come up uses up the
  fuel), as do \<^verbatim>\<open>client.ready(coordinator_id)\<close> in the response handler and the
  metadata refresh, which is recorded in the trace.
\<close>

datatype outcome = Returned | Raised failure

fun ensure_coordinator_known :: "nat \<Rightarrow> coordinator \<Rightarrow> (outcome \<times> coordinator) option" where
  "ensure_coordinator_known 0 c = None"
| "ensure_coordinator_known (Suc n) c =
    (let (unknown, c1) = coordinator_unknown c in
     if \<not> unknown then Some (Returned, c1)
     else if coordinator_id c1 \<noteq> None then ensure_coordinator_known n c1
     else
       (case await GroupCoordinatorApi handle_group_coordinator_response
               (send_group_metadata_request c1) of
          None \<Rightarrow> None
        | Some (Failed e, c2) \<Rightarrow>
            if future_retriable e then
              ensure_coordinator_known n (c2\<lparr>trace := trace c2 @ [RequestUpdate]\<rparr>)
            else Some (Raised e, c2)
        | Some (_, c2) \<Rightarrow> ensure_coordinator_known n c2))"

subsection \<open>The join loop\<close>

definition sleep :: "int \<Rightarrow> coordinator \<Rightarrow> coordinator" where
  "sleep ms c = c\<lparr>time_now := time_now c + ms, trace := trace c @ [Sleep ms]\<rparr>"

fun ensure_active_group_loop :: "nat \<Rightarrow> coordinator \<Rightarrow> (outcome \<times> coordinator) option" where
  "ensure_active_group_loop 0 c = None"
| "ensure_active_group_loop (Suc n) c =
    (if \<not> need_rejoin c then Some (Returned, c)
     else
       (case ensure_coordinator_known n c of
          None \<Rightarrow> None
        | Some (Raised e, c1) \<Rightarrow> Some (Raised e, c1)
        | Some (Returned, c1) \<Rightarrow>
            (case poll_group_join (perform_group_join c1) of
               None \<Rightarrow> None
             | Some (Pending, c2) \<Rightarrow> None
             | Some (Succeeded member_assignment_bytes, c2) \<Rightarrow>
                 (case protocol c2 of
                    None \<Rightarrow> Some (Raised (Instance (OtherException ''AttributeError'') []), c2)
                  | Some p \<Rightarrow>
                      (let c3 = c2\<lparr>trace := trace c2 @
                                     [OnJoinComplete (generation c2) (member_id c2) p
                                        member_assignment_bytes]\<rparr>;
                           c4 = c3\<lparr>needs_join_prepare := True\<rparr>
                       in ensure_active_group_loop n (HeartbeatTask_reset c4)))
             | Some (Failed exception, c2) \<Rightarrow>
                 if isinstance exception
                      [UnknownMemberIdError, RebalanceInProgressError, IllegalGenerationError]
                 then ensure_active_group_loop n c2
                 else if \<not> future_retriable exception then Some (Raised exception, c2)
                 else ensure_active_group_loop n (sleep (retry_backoff_ms (config c2)) c2))))"

definition ensure_active_group :: "nat \<Rightarrow> coordinator \<Rightarrow> (outcome \<times> coordinator) option" where
  "ensure_active_group fuel c =
    (if \<not> need_rejoin c then Some (Returned, c)
     else
       (let c1 = (if needs_join_prepare c then
                    c\<lparr>trace := trace c @ [OnJoinPrepare (generation c) (member_id c)],
                      needs_join_prepare := False\<rparr>
                  else c)
        in ensure_active_group_loop fuel c1))"

subsection \<open>Leaving the group\<close>

text \<open>
  \<^verbatim>\<open>_handle_leave_group_response\<close> and the errback only log, so the reply to the
  LeaveGroup request is consumed and nothing else changes.
\<close>

definition close :: "coordinator \<Rightarrow> coordinator option" where
  "close c =
    (let c0 = client_unschedule c;
         (unknown, c1) = coordinator_unknown c0;
         left =
           (if \<not> unknown \<and> generation c1 > 0 then
              (let request = LeaveGroupRequest (group_id c1) (member_id c1);
                   c2 = client_send (coordinator_id c1) request c1
               in case replies (client c2) LeaveGroupApi of
                    [] \<Rightarrow> None
                  | r # rs \<Rightarrow>
                      Some (c2\<lparr>client := (client c2)
                              \<lparr>replies := (replies (client c2))(LeaveGroupApi := rs)\<rparr>\<rparr>))
            else Some c1)
     in case left of
          None \<Rightarrow> None
        | Some c3 \<Rightarrow>
            Some (c3\<lparr>generation := DEFAULT_GENERATION_ID, member_id := UNKNOWN_MEMBER_ID,
                     rejoin_needed := True\<rparr>))"

section \<open>Runs of operations\<close>

text \<open>
  The operations a run is made of: the public calls of the coordinator, what the
  scheduler and the transport do to the heartbeat task, and the environment (time passes,
  connections change, the transport's script is extended).
\<close>

datatype operation =
    EnsureActiveGroup nat
  | EnsureCoordinatorKnown nat
  | CoordinatorUnknown
  | Close
  | Reset
  | Fire
  | HeartbeatReply reply
  | Tick int
  | Connections "int \<Rightarrow> bool" "int \<Rightarrow> bool"
  | Script "api \<Rightarrow> reply list"

fun apply_op :: "operation \<Rightarrow> coordinator \<Rightarrow> coordinator option" where
  "apply_op (EnsureActiveGroup fuel) c = map_option snd (ensure_active_group fuel c)"
| "apply_op (EnsureCoordinatorKnown fuel) c = map_option snd (ensure_coordinator_known fuel c)"
| "apply_op CoordinatorUnknown c = Some (snd (coordinator_unknown c))"
| "apply_op Close c = close c"
| "apply_op Reset c = Some (HeartbeatTask_reset c)"
| "apply_op Fire c = Some (fire c)"
| "apply_op (HeartbeatReply r) c = Some (heartbeat_reply r c)"
| "apply_op (Tick ms) c = Some (c\<lparr>time_now := time_now c + max 0 ms\<rparr>)"
| "apply_op (Connections d r) c =
     Some (c\<lparr>client := (client c)\<lparr>is_disconnected := d, ready := r\<rparr>\<rparr>)"
| "apply_op (Script rs) c = Some (c\<lparr>client := (client c)\<lparr>replies := rs\<rparr>\<rparr>)"

fun run_ops :: "operation list \<Rightarrow> coordinator \<Rightarrow> coordinator option" where
  "run_ops [] c = Some c"
| "run_ops (x # xs) c = (case apply_op x c of None \<Rightarrow> None | Some c1 \<Rightarrow> run_ops xs c1)"

text \<open>\<^verbatim>\<open>Future.failed()\<close>\<close>

fun failed :: "'a future \<Rightarrow> bool" where
  "failed (Failed e) = True"
| "failed _ = False"

section \<open>Example states\<close>

text \<open>
  A transport whose connections are all up, a response with every field empty, a
  coordinator as \<^verbatim>\<open>__init__\<close> leaves it, and a member of generation 3.
\<close>

definition example_client :: client where
  "example_client =
    \<lparr>is_disconnected = (\<lambda>node. False), ready = (\<lambda>node. True), least_loaded_node = Some 1,
     add_group_coordinator = (\<lambda>resp. True), replies = (\<lambda>kind. []),
     in_flight_heartbeats = 0,
     scheduled = None\<rparr>"

definition example_response :: response where
  "example_response =
    \<lparr>error_code = 0, generation_id = 0, resp_member_id = [], leader_id = [],
     group_protocol = [], members = [], member_assignment = [], resp_coordinator_id = 0\<rparr>"

definition example_coordinator :: coordinator where
  "example_coordinator =
    init DEFAULT_CONFIG example_client ''consumer'' [(''range'', ''meta'')]
      (\<lambda>leader proto ms. Inr (map (\<lambda>(m, md). (m, ''assigned'')) ms)) 0"

definition stable_coordinator :: coordinator where
  "stable_coordinator =
    example_coordinator\<lparr>generation := 3, member_id := ''m1'', coordinator_id := Some 7,
      rejoin_needed := False, protocol := Some ''range''\<rparr>"

text \<open>
  The replies of a clean join as follower, by kind of request: the coordinator is node 7,
  the broker admits the member as \<open>m1\<close> in generation 3, and the assignment arrives.
\<close>

definition join_script :: "api \<Rightarrow> reply list" where
  "join_script =
    (\<lambda>kind. [])
     (GroupCoordinatorApi := [Delivered (example_response\<lparr>resp_coordinator_id := 7\<rparr>)],
      JoinGroupApi :=
        [Delivered (example_response\<lparr>generation_id := 3, resp_member_id := ''m1'',
                      leader_id := ''m2'', group_protocol := ''range''\<rparr>)],
      SyncGroupApi := [Delivered (example_response\<lparr>member_assignment := ''AB''\<rparr>)])"

text \<open>A member whose heartbeat task is due long after the session has expired.\<close>

definition expired_coordinator :: coordinator where
  "expired_coordinator =
     stable_coordinator\<lparr>client := example_client\<lparr>scheduled := Some 100\<rparr>, time_now := 40000\<rparr>"


section \<open>Predicates on states and runs\<close>

text \<open>The events that are calls of \<^verbatim>\<open>_on_join_prepare\<close>, and lists free of them.\<close>

fun is_prepare :: "event \<Rightarrow> bool" where
  "is_prepare (OnJoinPrepare g m) = True"
| "is_prepare _ = False"

definition prepare_free :: "event list \<Rightarrow> bool" where
  "prepare_free es = (filter is_prepare es = [])"

text \<open>
  A JoinGroup response of a broker that answers \<open>NoError\<close> carries a generation that is
  not negative and a member id that is not empty. The handlers do not check it, so runs
  are taken over scripts whose replies to JoinGroup requests are all of this kind.
\<close>

definition well_formed_reply :: "reply \<Rightarrow> bool" where
  "well_formed_reply r =
    (case r of
       Delivered resp \<Rightarrow>
         error_code resp \<noteq> 0 \<or>
         (0 \<le> generation_id resp \<and> resp_member_id resp \<noteq> UNKNOWN_MEMBER_ID)
     | SendFailed e \<Rightarrow> True)"

definition well_formed_script :: "coordinator \<Rightarrow> bool" where
  "well_formed_script c = list_all well_formed_reply (replies (client c) JoinGroupApi)"

fun well_formed_op :: "operation \<Rightarrow> bool" where
  "well_formed_op (Script rs) = list_all well_formed_reply (rs JoinGroupApi)"
| "well_formed_op _ = True"

text \<open>The invariant of the spec's data model, and its part that holds of the code.\<close>

definition stable_state :: "coordinator \<Rightarrow> bool" where
  "stable_state c =
    (rejoin_needed c \<or>
     (0 \<le> generation c \<and> member_id c \<noteq> UNKNOWN_MEMBER_ID \<and> coordinator_id c \<noteq> None))"

definition joined_state :: "coordinator \<Rightarrow> bool" where
  "joined_state c =
    (rejoin_needed c \<or> (0 \<le> generation c \<and> member_id c \<noteq> UNKNOWN_MEMBER_ID))"

text \<open>
  The heartbeat task and the transport agree: the flag is set exactly when one heartbeat
  request is outstanding, there is never more than one, and no firing is pending while
  one is outstanding.
\<close>

definition task_invariant :: "coordinator \<Rightarrow> bool" where
  "task_invariant c =
    (in_flight_heartbeats (client c) \<le> 1 \<and>
     (request_in_flight (heartbeat_task c) = (in_flight_heartbeats (client c) = 1)) \<and>
     (\<not> request_in_flight (heartbeat_task c) \<or> scheduled (client c) = None))"

text \<open>
  What the blocking calls and the handlers of the join flow leave alone: the heartbeat
  requests in flight and the task's flag; a pending firing is at most cancelled while a
  heartbeat is in flight; the script is only consumed; the trace is only extended, and
  not by a call of \<^verbatim>\<open>_on_join_prepare\<close>.
\<close>

definition quiet :: "coordinator \<Rightarrow> coordinator \<Rightarrow> bool" where
  "quiet c c' =
    (request_in_flight (heartbeat_task c') = request_in_flight (heartbeat_task c) \<and>
     in_flight_heartbeats (client c') = in_flight_heartbeats (client c) \<and>
     (\<not> request_in_flight (heartbeat_task c) \<or> scheduled (client c') = None \<or>
      scheduled (client c') = scheduled (client c)) \<and>
     (\<not> well_formed_script c \<or> well_formed_script c') \<and>
     take (length (trace c)) (trace c') = trace c \<and>
     prepare_free (drop (length (trace c)) (trace c')))"

text \<open>What coordinator discovery leaves alone: the membership.\<close>

definition same_member :: "coordinator \<Rightarrow> coordinator \<Rightarrow> bool" where
  "same_member c c' =
    (generation c' = generation c \<and> member_id c' = member_id c \<and>
     rejoin_needed c' = rejoin_needed c)"

text \<open>A script on which the first call raises: the broker rejects the group id.\<close>

definition rejected_script :: "api \<Rightarrow> reply list" where
  "rejected_script =
    (\<lambda>kind. [])
     (GroupCoordinatorApi := [Delivered (example_response\<lparr>resp_coordinator_id := 7\<rparr>)],
      JoinGroupApi := [Delivered (example_response\<lparr>error_code := 24\<rparr>)])"

text \<open>
  The run of the spec's scenario 4: a clean join as follower, a heartbeat sent at time
  3000, and the answer \<open>NotCoordinatorForGroupError\<close>.
\<close>

definition coordinator_moved_run :: "operation list" where
  "coordinator_moved_run =
    [Script join_script, EnsureActiveGroup 5, Tick 3000, Fire,
     HeartbeatReply (Delivered (example_response\<lparr>error_code := 16\<rparr>))]"

text \<open>
  The JoinGroup request \<^verbatim>\<open>_perform_group_join\<close> builds in a state, and the state in
  which the join loop starts its next iteration after the reply \<open>resp\<close> to that request has
  failed the join with one of the errors that restart the handshake: the request is in
  the trace, the reply is consumed, and the member id is reset if the error is
  \<open>UnknownMemberIdError\<close>.
\<close>

definition join_request :: "coordinator \<Rightarrow> request" where
  "join_request c =
    JoinGroupRequest (group_id c) (session_timeout_ms (config c)) (member_id c)
      (protocol_type c) (group_protocols c)"

definition retry_state :: "coordinator \<Rightarrow> response \<Rightarrow> reply list \<Rightarrow> coordinator" where
  "retry_state c resp rest =
    c\<lparr>trace := trace c @ [Sent (coordinator_id c) (join_request c)],
      client := (client c)\<lparr>replies := (replies (client c))(JoinGroupApi := rest)\<rparr>,
      member_id := (if error_code resp = 25 then UNKNOWN_MEMBER_ID else member_id c)\<rparr>"

text \<open>
  A member whose id the broker no longer knows (the spec's scenario 3). The broker answers
  the first JoinGroup request with code 25, admits the member as \<open>m1\<close> in generation 3 on
  the second, and answers the SyncGroup request with the assignment.
\<close>

definition stale_coordinator :: coordinator where
  "stale_coordinator =
    example_coordinator\<lparr>member_id := ''stale'', coordinator_id := Some 7,
      needs_join_prepare := False,
      client := example_client\<lparr>replies :=
        (\<lambda>kind. [])
         (JoinGroupApi :=
            [Delivered (example_response\<lparr>error_code := 25\<rparr>),
             Delivered (example_response\<lparr>generation_id := 3, resp_member_id := ''m1'',
                          leader_id := ''m2'', group_protocol := ''range''\<rparr>)],
          SyncGroupApi := [Delivered (example_response\<lparr>member_assignment := ''AB''\<rparr>)])\<rparr>\<rparr>"

text \<open>A coordinator that knows node 7 and has not joined, with the replies of a clean join.\<close>

definition joining_coordinator :: coordinator where
  "joining_coordinator =
    example_coordinator\<lparr>coordinator_id := Some 7,
      client := example_client\<lparr>replies := join_script\<rparr>\<rparr>"

section \<open>Properties\<close>

subsection \<open>The error table\<close>

lemma for_code_unfold:
  "for_code c =
    (if c = 0 then NoError else if c = - 1 then UnknownError
     else if c = 1 then OffsetOutOfRangeError else if c = 2 then InvalidMessageError
     else if c = 3 then UnknownTopicOrPartitionError else if c = 4 then InvalidFetchRequestError
     else if c = 5 then LeaderNotAvailableError else if c = 6 then NotLeaderForPartitionError
     else if c = 7 then RequestTimedOutError else if c = 8 then BrokerNotAvailableError
     else if c = 9 then ReplicaNotAvailableError else if c = 10 then MessageSizeTooLargeError
     else if c = 11 then StaleControllerEpochError else if c = 12 then OffsetMetadataTooLargeError
     else if c = 13 then StaleLeaderEpochCodeError else if c = 14 then GroupLoadInProgressError
     else if c = 15 then GroupCoordinatorNotAvailableError
     else if c = 16 then NotCoordinatorForGroupError else if c = 17 then InvalidTopicError
     else if c = 18 then RecordListTooLargeError else if c = 19 then NotEnoughReplicasError
     else if c = 20 then NotEnoughReplicasAfterAppendError
     else if c = 21 then InvalidRequiredAcksError else if c = 22 then IllegalGenerationError
     else if c = 23 then InconsistentGroupProtocolError else if c = 24 then InvalidGroupIdError
     else if c = 25 then UnknownMemberIdError else if c = 26 then InvalidSessionTimeoutError
     else if c = 27 then RebalanceInProgressError else if c = 28 then InvalidCommitOffsetSizeError
     else if c = 29 then TopicAuthorizationFailedError
     else if c = 30 then GroupAuthorizationFailedError
     else if c = 31 then ClusterAuthorizationFailedError else UnknownError)"
  by (simp add: for_code_def kafka_errors_def broker_errors_def)

lemma for_code_NoError: "(for_code c = NoError) = (c = 0)"
  by (simp add: for_code_unfold)

lemma for_code_numeral [simp]:
  "for_code 0 = NoError" "for_code 15 = GroupCoordinatorNotAvailableError"
  "for_code 16 = NotCoordinatorForGroupError" "for_code 22 = IllegalGenerationError"
  "for_code 24 = InvalidGroupIdError"
  "for_code 25 = UnknownMemberIdError" "for_code 27 = RebalanceInProgressError"
  "for_code 30 = GroupAuthorizationFailedError"
  by (simp_all add: for_code_unfold)

subsection \<open>SyncGroup errors\<close>

text \<open>
  C4. For every SyncGroup response whose error code is not that of \<open>NoError\<close>, the
  handler sets \<open>rejoin_needed\<close> and fails the future. For \<open>UnknownMemberIdError\<close> and
  \<open>IllegalGenerationError\<close> it also resets \<open>member_id\<close> to the sentinel; for
  \<open>GroupCoordinatorNotAvailableError\<close> and \<open>NotCoordinatorForGroupError\<close> it clears
  \<open>coordinator_id\<close>; for \<open>GroupAuthorizationFailedError\<close> the error delivered is not
  retriable and carries the group id.
\<close>

theorem sync_group_error_handling:
  assumes "for_code (error_code resp) \<noteq> NoError"
  shows "rejoin_needed (snd (handle_sync_group_response resp c)) \<and>
         failed (fst (handle_sync_group_response resp c)) \<and>
         (for_code (error_code resp) = UnknownMemberIdError \<or>
          for_code (error_code resp) = IllegalGenerationError \<longrightarrow>
            member_id (snd (handle_sync_group_response resp c)) = UNKNOWN_MEMBER_ID) \<and>
         (for_code (error_code resp) = GroupCoordinatorNotAvailableError \<or>
          for_code (error_code resp) = NotCoordinatorForGroupError \<longrightarrow>
            coordinator_id (snd (handle_sync_group_response resp c)) = None) \<and>
         (for_code (error_code resp) = GroupAuthorizationFailedError \<longrightarrow>
            fst (handle_sync_group_response resp c) =
              Failed (Instance GroupAuthorizationFailedError [ArgStr (group_id c)]) \<and>
            \<not> future_retriable (Instance GroupAuthorizationFailedError [ArgStr (group_id c)]))"
  using assms
  by (simp add: handle_sync_group_response_def Let_def coordinator_dead_def future_retriable_def)

theorem sync_group_error_handling_witness:
  "for_code (error_code (example_response\<lparr>error_code := 25\<rparr>)) \<noteq> NoError \<and>
   rejoin_needed
     (snd (handle_sync_group_response (example_response\<lparr>error_code := 25\<rparr>) stable_coordinator)) \<and>
   failed
     (fst (handle_sync_group_response (example_response\<lparr>error_code := 25\<rparr>) stable_coordinator)) \<and>
   member_id
     (snd (handle_sync_group_response (example_response\<lparr>error_code := 25\<rparr>) stable_coordinator)) = []"
proof -
  have h: "for_code (error_code (example_response\<lparr>error_code := 25\<rparr>)) \<noteq> NoError"
    by simp
  show ?thesis
    using h sync_group_error_handling [OF h, of stable_coordinator]
    by (simp add: UNKNOWN_MEMBER_ID_def)
qed

subsection \<open>Heartbeat responses\<close>

text \<open>
  C9. On a Heartbeat response with error code 25 the handler resets \<open>member_id\<close> and sets
  \<open>rejoin_needed\<close>, and what it hands to \<^verbatim>\<open>future.failure\<close> is the class
  \<open>UnknownMemberIdError\<close> itself, not an instance of it.
\<close>

theorem heartbeat_unknown_member_id_fails_with_class:
  "handle_heartbeat_response (resp\<lparr>error_code := 25\<rparr>) c =
     (Failed (BareClass UnknownMemberIdError),
      c\<lparr>member_id := UNKNOWN_MEMBER_ID, rejoin_needed := True\<rparr>)"
  by (simp add: handle_heartbeat_response_def)

subsection \<open>The guard of the join and sync requests\<close>

text \<open>
  C10. Called while \<^verbatim>\<open>coordinator_unknown()\<close> is true, \<^verbatim>\<open>_perform_group_join\<close> and
  \<^verbatim>\<open>_send_sync_group_request\<close> return a future that has already failed with a
  retriable \<open>GroupCoordinatorNotAvailableError\<close>; nothing is sent, no reply is consumed,
  and the coordinator is left as \<^verbatim>\<open>coordinator_unknown()\<close> leaves it: no field but
  \<open>coordinator_id\<close> is modified.
\<close>

theorem join_sync_guard:
  assumes "fst (coordinator_unknown c)"
  shows "fst (perform_group_join c) =
           Failed (Instance GroupCoordinatorNotAvailableError
                     [ArgNode (coordinator_id (snd (perform_group_join c)))]) \<and>
         fst (send_sync_group_request request c) =
           Failed (Instance GroupCoordinatorNotAvailableError []) \<and>
         future_retriable (Instance GroupCoordinatorNotAvailableError args) \<and>
         snd (perform_group_join c) = snd (coordinator_unknown c) \<and>
         snd (send_sync_group_request request c) = snd (coordinator_unknown c) \<and>
         snd (coordinator_unknown c) =
           c\<lparr>coordinator_id := coordinator_id (snd (coordinator_unknown c))\<rparr> \<and>
         trace (snd (coordinator_unknown c)) = trace c \<and>
         replies (client (snd (coordinator_unknown c))) = replies (client c)"
  using assms
  by (auto simp add: perform_group_join_def send_sync_group_request_def coordinator_unknown_def
      coordinator_dead_def future_retriable_def split: option.splits if_splits)

theorem join_sync_guard_witness:
  "fst (coordinator_unknown example_coordinator) \<and>
   fst (perform_group_join example_coordinator) =
     Failed (Instance GroupCoordinatorNotAvailableError [ArgNode None]) \<and>
   fst (send_sync_group_request (SyncGroupRequest ''g'' 1 ''m'' []) example_coordinator) =
     Failed (Instance GroupCoordinatorNotAvailableError []) \<and>
   trace (snd (perform_group_join example_coordinator)) = []"
proof -
  have h: "fst (coordinator_unknown example_coordinator)"
    by (simp add: coordinator_unknown_def example_coordinator_def init_def)
  have t: "trace example_coordinator = []" "coordinator_id example_coordinator = None"
    by (simp_all add: example_coordinator_def init_def)
  show ?thesis
    using h t join_sync_guard [OF h, of "SyncGroupRequest ''g'' 1 ''m'' []" "[]"]
    by (simp add: coordinator_unknown_def)
qed

subsection \<open>Session expiry\<close>

text \<open>
  C7, as the code has it. When the heartbeat task fires while \<^verbatim>\<open>session_expired()\<close>
  holds, it does not reschedule itself and sends no heartbeat. It clears \<open>coordinator_id\<close>
  when the firing passes its first guard, that is when the generation is not negative,
  no rejoin is needed and \<^verbatim>\<open>coordinator_unknown()\<close> is false.
\<close>

theorem session_expiry_firing:
  assumes "scheduled (client c) = Some at" and "at \<le> time_now c"
    and "session_expired (heartbeat c) (time_now c)"
  shows "scheduled (client (fire c)) = None \<and>
         trace (fire c) = trace c \<and>
         in_flight_heartbeats (client (fire c)) = in_flight_heartbeats (client c) \<and>
         (0 \<le> generation c \<and> \<not> need_rejoin c \<and> \<not> fst (coordinator_unknown c) \<longrightarrow>
            coordinator_id (fire c) = None)"
  using assms
  by (auto simp add: fire_def HeartbeatTask_call_def client_unschedule_def coordinator_unknown_def
      coordinator_dead_def need_rejoin_def split: option.splits if_splits)

theorem session_expiry_firing_witness:
  "scheduled (client expired_coordinator) = Some 100 \<and> 100 \<le> time_now expired_coordinator \<and>
   session_expired (heartbeat expired_coordinator) (time_now expired_coordinator) \<and>
   0 \<le> generation expired_coordinator \<and> \<not> need_rejoin expired_coordinator \<and>
   \<not> fst (coordinator_unknown expired_coordinator) \<and>
   scheduled (client (fire expired_coordinator)) = None \<and>
   coordinator_id (fire expired_coordinator) = None"
proof -
  have h1: "scheduled (client expired_coordinator) = Some 100"
    and h2: "100 \<le> time_now expired_coordinator"
    and h3: "session_expired (heartbeat expired_coordinator) (time_now expired_coordinator)"
    and h4: "0 \<le> generation expired_coordinator \<and> \<not> need_rejoin expired_coordinator \<and>
             \<not> fst (coordinator_unknown expired_coordinator)"
    by (simp_all add: expired_coordinator_def stable_coordinator_def example_coordinator_def
        example_client_def init_def DEFAULT_CONFIG_def session_expired_def need_rejoin_def
        coordinator_unknown_def)
  show ?thesis
    using h1 h2 h3 h4 session_expiry_firing [OF h1 h2 h3] by simp
qed

text \<open>
  C7 as stated, without the guard, fails. A member joins generation 3 at time 0; its first
  heartbeat, sent at 3000, is answered \<open>RebalanceInProgressError\<close>, which sets
  \<open>rejoin_needed\<close> and schedules the task for 3100. At 33000 the session has expired and
  the firing is due, but the firing stops at its first guard: the coordinator is still
  node 7.
\<close>

theorem session_expiry_counterexample:
  "map_option
     (\<lambda>c. (session_expired (heartbeat c) (time_now c), scheduled (client c), time_now c,
           coordinator_id (fire c)))
     (run_ops [Script join_script, EnsureActiveGroup 5, Tick 3000, Fire,
               HeartbeatReply (Delivered (example_response\<lparr>error_code := 27\<rparr>)), Tick 30000]
        example_coordinator)
   = Some (True, Some 3100, 33000, Some 7)"
  by code_simp

subsection \<open>Closing twice\<close>




subsection \<open>What the join flow leaves alone\<close>

lemma prepare_free_simps [simp]:
  "prepare_free []"
  "prepare_free (e # es) = (\<not> is_prepare e \<and> prepare_free es)"
  "prepare_free (es @ fs) = (prepare_free es \<and> prepare_free fs)"
  by (auto simp add: prepare_free_def)

lemma quiet_refl [simp]: "quiet c c"
  by (simp add: quiet_def)

lemma extends_iff: "(take (length xs) ys = xs) = (\<exists>zs. ys = xs @ zs)"
  by (metis append_eq_conv_conj append_take_drop_id)

lemma quiet_trans:
  assumes "quiet a b" and "quiet b c"
  shows "quiet a c"
proof -
  obtain s1 where s1: "trace b = trace a @ s1" and p1: "prepare_free s1"
    using assms(1) by (auto simp add: quiet_def extends_iff)
  obtain s2 where s2: "trace c = trace b @ s2" and p2: "prepare_free s2"
    using assms(2) by (auto simp add: quiet_def extends_iff)
  have "take (length (trace a)) (trace c) = trace a"
    and "prepare_free (drop (length (trace a)) (trace c))"
    using s1 s2 p1 p2 by simp_all
  then show ?thesis
    using assms by (auto simp add: quiet_def)
qed

lemma well_formed_script_tl:
  "well_formed_script c \<Longrightarrow> replies (client c) kind = r # rs \<Longrightarrow>
   well_formed_script (c\<lparr>client := (client c)\<lparr>replies := (replies (client c))(kind := rs)\<rparr>\<rparr>)"
  by (auto simp add: well_formed_script_def)

lemma quiet_coordinator_dead: "quiet c (coordinator_dead c)"
  by (simp add: quiet_def coordinator_dead_def well_formed_script_def)

lemma quiet_coordinator_unknown: "quiet c (snd (coordinator_unknown c))"
  by (simp add: coordinator_unknown_def quiet_coordinator_dead split: option.splits)

lemma quiet_reset: "quiet c (HeartbeatTask_reset c)"
  by (simp add: quiet_def HeartbeatTask_reset_def client_unschedule_def client_schedule_def
      well_formed_script_def Let_def)

lemma quiet_client_send: "quiet c (client_send node req c)"
  by (simp add: quiet_def client_send_def well_formed_script_def)

lemma quiet_sleep: "quiet c (sleep ms c)"
  by (simp add: quiet_def sleep_def well_formed_script_def)

lemma quiet_failed_request: "quiet c (snd (failed_request e c))"
  by (simp add: failed_request_def quiet_coordinator_dead)

lemma quiet_fields:
  "quiet c (c\<lparr>rejoin_needed := b\<rparr>)"
  "quiet c (c\<lparr>member_id := m\<rparr>)"
  "quiet c (c\<lparr>coordinator_id := n\<rparr>)"
  "quiet c (c\<lparr>needs_join_prepare := b\<rparr>)"
  "quiet c (c\<lparr>member_id := m, generation := g, rejoin_needed := b, protocol := p\<rparr>)"
  "\<not> is_prepare e \<Longrightarrow> quiet c (c\<lparr>trace := trace c @ [e]\<rparr>)"
  by (simp_all add: quiet_def well_formed_script_def)

lemma quiet_send_sync: "quiet c (snd (send_sync_group_request req c))"
proof -
  obtain u c1 where cu: "coordinator_unknown c = (u, c1)"
    by (cases "coordinator_unknown c")
  then have q1: "quiet c c1"
    using quiet_coordinator_unknown [of c] by simp
  have "quiet c1 (client_send (coordinator_id c1) req c1)"
    by (rule quiet_client_send)
  then have "quiet c (client_send (coordinator_id c1) req c1)"
    using q1 quiet_trans by blast
  then show ?thesis
    using cu q1 by (simp add: send_sync_group_request_def)
qed

lemma quiet_on_join_follower: "quiet c (snd (on_join_follower c))"
  by (simp add: on_join_follower_def quiet_send_sync)

lemma quiet_on_join_leader: "quiet c (snd (on_join_leader resp c))"
proof -
  let ?c1 = "c\<lparr>trace := trace c @
               [PerformAssignment (leader_id resp) (group_protocol resp) (members resp)]\<rparr>"
  have q1: "quiet c ?c1"
    by (simp add: quiet_fields)
  show ?thesis
    using q1 quiet_trans [OF q1 quiet_send_sync]
    by (simp add: on_join_leader_def Let_def split: sum.splits)
qed

lemma quiet_handle_sync: "quiet c (snd (handle_sync_group_response resp c))"
proof -
  let ?c1 = "c\<lparr>rejoin_needed := True\<rparr>"
  have q1: "quiet c ?c1"
    by (simp add: quiet_fields)
  have q2: "quiet ?c1 (?c1\<lparr>member_id := UNKNOWN_MEMBER_ID\<rparr>)"
    by (rule quiet_fields)
  have q3: "quiet ?c1 (coordinator_dead ?c1)"
    by (rule quiet_coordinator_dead)
  show ?thesis
    using q1 quiet_trans [OF q1 q2] quiet_trans [OF q1 q3]
    by (simp add: handle_sync_group_response_def Let_def)
qed

lemma quiet_handle_join: "quiet c (snd (handle_join_group_response resp c))"
proof -
  let ?c1 = "c\<lparr>member_id := resp_member_id resp, generation := generation_id resp,
               rejoin_needed := False, protocol := Some (group_protocol resp)\<rparr>"
  have q1: "quiet c ?c1"
    by (rule quiet_fields)
  have q2: "quiet c (snd (on_join_leader resp ?c1))"
    using quiet_trans [OF q1 quiet_on_join_leader] .
  have q3: "quiet c (snd (on_join_follower ?c1))"
    using quiet_trans [OF q1 quiet_on_join_follower] .
  have q4: "quiet c (c\<lparr>member_id := UNKNOWN_MEMBER_ID\<rparr>)"
    by (rule quiet_fields)
  show ?thesis
    using q2 q3 q4 quiet_coordinator_dead [of c]
    by (simp add: handle_join_group_response_def Let_def)
qed

lemma quiet_handle_group_coordinator:
  "quiet c (snd (handle_group_coordinator_response resp c))"
proof -
  obtain u c1 where cu: "coordinator_unknown c = (u, c1)"
    by (cases "coordinator_unknown c")
  then have q1: "quiet c c1"
    using quiet_coordinator_unknown [of c] by simp
  let ?c2 = "c1\<lparr>coordinator_id := Some (resp_coordinator_id resp)\<rparr>"
  have q2: "quiet c ?c2"
    using quiet_trans [OF q1 quiet_fields(3)] .
  have q3: "quiet c (HeartbeatTask_reset ?c2)"
    using quiet_trans [OF q2 quiet_reset] .
  show ?thesis
    using cu q1 q2 q3
    by (simp add: handle_group_coordinator_response_def Let_def)
qed

lemma quiet_await:
  assumes "\<And>resp c. quiet c (snd (handler resp c))"
    and "await kind handler (fut, c) = Some (fut', c')"
  shows "quiet c c'"
proof (cases fut)
  case Pending
  then obtain r rs where rs: "replies (client c) kind = r # rs"
    using assms(2) by (auto simp add: await_def split: list.splits)
  let ?c1 = "c\<lparr>client := (client c)\<lparr>replies := (replies (client c))(kind := rs)\<rparr>\<rparr>"
  have q1: "quiet c ?c1"
    using rs by (auto simp add: quiet_def well_formed_script_def)
  show ?thesis
  proof (cases r)
    case (Delivered resp)
    then have "c' = snd (handler resp ?c1)"
      using assms(2) Pending rs by (auto simp add: await_def Let_def)
    then show ?thesis
      using quiet_trans [OF q1 assms(1)] by simp
  next
    case (SendFailed e)
    then have "c' = coordinator_dead ?c1"
      using assms(2) Pending rs by (auto simp add: await_def Let_def failed_request_def)
    then show ?thesis
      using quiet_trans [OF q1 quiet_coordinator_dead] by simp
  qed
next
  case (Succeeded v)
  then show ?thesis
    using assms(2) by (simp add: await_def)
next
  case (Failed e)
  then show ?thesis
    using assms(2) by (simp add: await_def)
qed

lemma quiet_send_group_metadata: "quiet c (snd (send_group_metadata_request c))"
  by (simp add: send_group_metadata_request_def quiet_client_send split: option.splits)

lemma same_member_refl [simp]: "same_member c c"
  by (simp add: same_member_def)

lemma same_member_trans: "same_member a b \<Longrightarrow> same_member b c \<Longrightarrow> same_member a c"
  by (simp add: same_member_def)

lemma same_member_coordinator_unknown: "same_member c (snd (coordinator_unknown c))"
  by (simp add: same_member_def coordinator_unknown_def coordinator_dead_def split: option.splits)

lemma same_member_send_group_metadata: "same_member c (snd (send_group_metadata_request c))"
  by (simp add: same_member_def send_group_metadata_request_def client_send_def
      split: option.splits)

lemma same_member_handle_group_coordinator:
  "same_member c (snd (handle_group_coordinator_response resp c))"
  by (simp add: same_member_def handle_group_coordinator_response_def coordinator_unknown_def
      coordinator_dead_def HeartbeatTask_reset_def client_unschedule_def client_schedule_def
      Let_def split: option.splits)

lemma same_member_await_group_coordinator:
  assumes "await kind handle_group_coordinator_response (fut, c) = Some (fut', c')"
  shows "same_member c c'"
proof (cases fut)
  case Pending
  then obtain r rs where rs: "replies (client c) kind = r # rs"
    using assms by (auto simp add: await_def split: list.splits)
  let ?c1 = "c\<lparr>client := (client c)\<lparr>replies := (replies (client c))(kind := rs)\<rparr>\<rparr>"
  have m1: "same_member c ?c1"
    by (simp add: same_member_def)
  show ?thesis
  proof (cases r)
    case (Delivered resp)
    then have "c' = snd (handle_group_coordinator_response resp ?c1)"
      using assms Pending rs by (auto simp add: await_def Let_def)
    then show ?thesis
      using same_member_trans [OF m1 same_member_handle_group_coordinator] by simp
  next
    case (SendFailed e)
    then have "c' = coordinator_dead ?c1"
      using assms Pending rs by (auto simp add: await_def Let_def failed_request_def)
    then show ?thesis
      by (simp add: same_member_def coordinator_dead_def)
  qed
next
  case (Succeeded v)
  then show ?thesis
    using assms by (simp add: await_def)
next
  case (Failed e)
  then show ?thesis
    using assms by (simp add: await_def)
qed

lemma ensure_coordinator_known_frame:
  "ensure_coordinator_known n c = Some (out, c') \<Longrightarrow> quiet c c' \<and> same_member c c'"
proof (induction n arbitrary: c)
  case 0
  then show ?case by simp
next
  case (Suc n)
  obtain u c1 where cu: "coordinator_unknown c = (u, c1)"
    by (cases "coordinator_unknown c")
  have f1: "quiet c c1 \<and> same_member c c1"
    using cu quiet_coordinator_unknown [of c] same_member_coordinator_unknown [of c] by simp
  show ?case
  proof (cases "\<not> u")
    case True
    then show ?thesis
      using Suc.prems cu f1 by simp
  next
    case unknown: False
    show ?thesis
    proof (cases "coordinator_id c1 \<noteq> None")
      case True
      then have "ensure_coordinator_known n c1 = Some (out, c')"
        using Suc.prems cu unknown by simp
      then show ?thesis
        using Suc.IH f1 quiet_trans same_member_trans by blast
    next
      case False
      obtain f0 c0 where sg: "send_group_metadata_request c1 = (f0, c0)"
        by (cases "send_group_metadata_request c1")
      have f0: "quiet c1 c0 \<and> same_member c1 c0"
        using sg quiet_send_group_metadata [of c1] same_member_send_group_metadata [of c1]
        by simp
      from Suc.prems cu unknown False sg
      obtain f2 c2 where aw:
        "await GroupCoordinatorApi handle_group_coordinator_response (f0, c0) = Some (f2, c2)"
        by (cases "await GroupCoordinatorApi handle_group_coordinator_response (f0, c0)") auto
      have f2: "quiet c0 c2 \<and> same_member c0 c2"
        using quiet_await [OF quiet_handle_group_coordinator aw]
          same_member_await_group_coordinator [OF aw] by simp
      have f02: "quiet c c2 \<and> same_member c c2"
        using f1 f0 f2 quiet_trans same_member_trans by blast
      let ?c3 = "c2\<lparr>trace := trace c2 @ [RequestUpdate]\<rparr>"
      have f3: "quiet c ?c3 \<and> same_member c ?c3"
        using f02 quiet_trans [of c c2 ?c3] quiet_fields(6) [of RequestUpdate c2]
        by (simp add: same_member_def)
      have step: "ensure_coordinator_known (Suc n) c =
          (case f2 of
             Failed e \<Rightarrow>
               if future_retriable e then ensure_coordinator_known n ?c3
               else Some (Raised e, c2)
           | _ \<Rightarrow> ensure_coordinator_known n c2)"
        using cu unknown False sg aw by (simp split: future.splits)
      have "c' = c2 \<or> ensure_coordinator_known n ?c3 = Some (out, c') \<or>
            ensure_coordinator_known n c2 = Some (out, c')"
        using Suc.prems unfolding step by (cases f2) (simp_all split: if_splits)
      then consider "c' = c2"
        | "ensure_coordinator_known n ?c3 = Some (out, c')"
        | "ensure_coordinator_known n c2 = Some (out, c')"
        by blast
      then show ?thesis
      proof cases
        case 1
        then show ?thesis using f02 by simp
      next
        case 2
        then show ?thesis
          using Suc.IH f3 quiet_trans same_member_trans by blast
      next
        case 3
        then show ?thesis
          using Suc.IH f02 quiet_trans same_member_trans by blast
      qed
    qed
  qed
qed

lemma quiet_perform_group_join: "quiet c (snd (perform_group_join c))"
proof -
  obtain u c1 where cu: "coordinator_unknown c = (u, c1)"
    by (cases "coordinator_unknown c")
  then have q1: "quiet c c1"
    using quiet_coordinator_unknown [of c] by simp
  show ?thesis
    using cu q1 quiet_trans [OF q1 quiet_client_send]
    by (simp add: perform_group_join_def Let_def)
qed

lemma quiet_join:
  assumes "poll_group_join (perform_group_join c) = Some (fut, c')"
  shows "quiet c c'"
proof -
  obtain f0 c0 where pj: "perform_group_join c = (f0, c0)"
    by (cases "perform_group_join c")
  then have q0: "quiet c c0"
    using quiet_perform_group_join [of c] by simp
  from assms pj obtain f1 c1
    where a1: "await JoinGroupApi handle_join_group_response (f0, c0) = Some (f1, c1)"
      and a2: "await SyncGroupApi handle_sync_group_response (f1, c1) = Some (fut, c')"
    by (auto simp add: poll_group_join_def split: option.splits)
  show ?thesis
    using q0 quiet_await [OF quiet_handle_join a1] quiet_await [OF quiet_handle_sync a2]
      quiet_trans by blast
qed

lemma ensure_active_group_loop_quiet:
  "ensure_active_group_loop n c = Some (out, c') \<Longrightarrow> quiet c c'"
proof (induction n arbitrary: c)
  case 0
  then show ?case by simp
next
  case (Suc n)
  show ?case
  proof (cases "need_rejoin c")
    case False
    then show ?thesis using Suc.prems by simp
  next
    case True
    from Suc.prems True obtain o1 c1 where ek: "ensure_coordinator_known n c = Some (o1, c1)"
      by (cases "ensure_coordinator_known n c") auto
    have q1: "quiet c c1"
      using ensure_coordinator_known_frame [OF ek] by simp
    show ?thesis
    proof (cases o1)
      case (Raised e)
      then show ?thesis using Suc.prems True ek q1 by simp
    next
      case Returned
      from Suc.prems True ek Returned obtain fut c2
        where pj: "poll_group_join (perform_group_join c1) = Some (fut, c2)"
        by (cases "poll_group_join (perform_group_join c1)") auto
      have q2: "quiet c c2"
        using q1 quiet_join [OF pj] quiet_trans by blast
      show ?thesis
      proof (cases fut)
        case Pending
        then show ?thesis using Suc.prems True ek Returned pj by simp
      next
        case (Succeeded b)
        show ?thesis
        proof (cases "protocol c2")
          case None
          then show ?thesis using Suc.prems True ek Returned pj Succeeded q2 by simp
        next
          case (Some p)
          let ?c3 = "c2\<lparr>trace := trace c2 @
                          [OnJoinComplete (generation c2) (member_id c2) p b]\<rparr>"
          let ?c4 = "?c3\<lparr>needs_join_prepare := True\<rparr>"
          have q3: "quiet c2 ?c3" by (simp add: quiet_fields)
          have q4: "quiet ?c3 ?c4" by (rule quiet_fields)
          have q5: "quiet c (HeartbeatTask_reset ?c4)"
            using q2 q3 q4 quiet_reset [of ?c4] quiet_trans by blast
          have "ensure_active_group_loop n (HeartbeatTask_reset ?c4) = Some (out, c')"
            using Suc.prems True ek Returned pj Succeeded Some by (simp add: Let_def)
          then show ?thesis
            using Suc.IH q5 quiet_trans by blast
        qed
      next
        case (Failed e)
        have q6: "quiet c (sleep (retry_backoff_ms (config c2)) c2)"
          using q2 quiet_sleep quiet_trans by blast
        have step: "ensure_active_group_loop (Suc n) c =
            (if isinstance e
                  [UnknownMemberIdError, RebalanceInProgressError, IllegalGenerationError]
             then ensure_active_group_loop n c2
             else if \<not> future_retriable e then Some (Raised e, c2)
             else ensure_active_group_loop n (sleep (retry_backoff_ms (config c2)) c2))"
          using True ek Returned pj Failed by simp
        have "c' = c2 \<or> ensure_active_group_loop n c2 = Some (out, c') \<or>
              ensure_active_group_loop n (sleep (retry_backoff_ms (config c2)) c2) =
                Some (out, c')"
          using Suc.prems unfolding step by (simp split: if_splits)
        then consider "c' = c2"
          | "ensure_active_group_loop n c2 = Some (out, c')"
          | "ensure_active_group_loop n (sleep (retry_backoff_ms (config c2)) c2) = Some (out, c')"
          by blast
        then show ?thesis
        proof cases
          case 1
          then show ?thesis using q2 by simp
        next
          case 2
          then show ?thesis using Suc.IH q2 quiet_trans by blast
        next
          case 3
          then show ?thesis using Suc.IH q6 quiet_trans by blast
        qed
      qed
    qed
  qed
qed

subsection \<open>Prepare before join\<close>

text \<open>
  C6, as the code has it. In a call of \<^verbatim>\<open>ensure_active_group\<close> that starts with
  \<^verbatim>\<open>need_rejoin()\<close> true and ends (the group is joined, or an error is raised),
  \<^verbatim>\<open>_on_join_prepare(generation, member_id)\<close> is called once if \<open>needs_join_prepare\<close>
  is set at the start and not at all otherwise; the call, when there is one, is the first
  thing the coordinator does, before any JoinGroup request of the chain.
\<close>

theorem prepare_before_join:
  assumes "ensure_active_group fuel c = Some (out, c')" and "need_rejoin c"
  shows "\<exists>rest. trace c' =
           trace c @
           (if needs_join_prepare c then [OnJoinPrepare (generation c) (member_id c)] else []) @
           rest \<and> prepare_free rest"
proof -
  let ?c1 = "if needs_join_prepare c then
               c\<lparr>trace := trace c @ [OnJoinPrepare (generation c) (member_id c)],
                 needs_join_prepare := False\<rparr>
             else c"
  have "ensure_active_group_loop fuel ?c1 = Some (out, c')"
    using assms by (simp add: ensure_active_group_def Let_def)
  then have "quiet ?c1 c'"
    by (rule ensure_active_group_loop_quiet)
  then obtain rest where "trace c' = trace ?c1 @ rest" and "prepare_free rest"
    by (auto simp add: quiet_def extends_iff)
  then show ?thesis
    by auto
qed

lemma some_pair: "map_option fst x = Some a \<Longrightarrow> x = Some (a, snd (the x))"
  by (cases x) auto

theorem prepare_before_join_witness:
  "need_rejoin (example_coordinator\<lparr>client := example_client\<lparr>replies := join_script\<rparr>\<rparr>) \<and>
   map_option fst
     (ensure_active_group 5 (example_coordinator\<lparr>client := example_client\<lparr>replies := join_script\<rparr>\<rparr>))
     = Some Returned \<and>
   (\<exists>rest.
      trace (snd (the (ensure_active_group 5
               (example_coordinator\<lparr>client := example_client\<lparr>replies := join_script\<rparr>\<rparr>)))) =
        [OnJoinPrepare (- 1) []] @ rest \<and> prepare_free rest)"
proof -
  let ?c = "example_coordinator\<lparr>client := example_client\<lparr>replies := join_script\<rparr>\<rparr>"
  have h1: "map_option fst (ensure_active_group 5 ?c) = Some Returned"
    by code_simp
  have h2: "need_rejoin ?c"
    by code_simp
  have h3: "needs_join_prepare ?c" "trace ?c = []" "generation ?c = - 1" "member_id ?c = []"
    by (simp_all add: example_coordinator_def init_def DEFAULT_GENERATION_ID_def
        UNKNOWN_MEMBER_ID_def)
  show ?thesis
    using h1 h2 h3 prepare_before_join [OF some_pair [OF h1] h2]
    by simp
qed

text \<open>
  C6 as stated fails for the chain after one that ended with an error. The first
  call prepares, discovers the coordinator, sends a JoinGroup request and raises
  \<open>InvalidGroupIdError\<close>, leaving \<open>needs_join_prepare\<close> false. The second call joins the
  group with a JoinGroup and a SyncGroup request, and \<^verbatim>\<open>_on_join_prepare\<close> is not
  called in it.
\<close>

theorem prepare_before_join_counterexample:
  "map_option (\<lambda>c. (rejoin_needed c, needs_join_prepare c, trace c))
     (run_ops [Script rejected_script, EnsureActiveGroup 5] example_coordinator) =
     Some (True, False,
       [OnJoinPrepare (- 1) [],
        Sent (Some 1) (GroupCoordinatorRequest ''kafka-python-default-group''),
        Sent (Some 7) (JoinGroupRequest ''kafka-python-default-group'' 30000 [] ''consumer''
                         [(''range'', ''meta'')])]) \<and>
   map_option (\<lambda>c. (rejoin_needed c, trace c))
     (run_ops [Script rejected_script, EnsureActiveGroup 5, Script join_script,
               EnsureActiveGroup 5] example_coordinator) =
     Some (False,
       [OnJoinPrepare (- 1) [],
        Sent (Some 1) (GroupCoordinatorRequest ''kafka-python-default-group''),
        Sent (Some 7) (JoinGroupRequest ''kafka-python-default-group'' 30000 [] ''consumer''
                         [(''range'', ''meta'')])] @
       [Sent (Some 7) (JoinGroupRequest ''kafka-python-default-group'' 30000 [] ''consumer''
                         [(''range'', ''meta'')]),
        Sent (Some 7) (SyncGroupRequest ''kafka-python-default-group'' 3 ''m1'' []),
        OnJoinComplete 3 ''m1'' ''range'' ''AB''])"
  by code_simp

subsection \<open>One heartbeat in flight\<close>

lemma task_invariant_quiet: "task_invariant c \<Longrightarrow> quiet c c' \<Longrightarrow> task_invariant c'"
  by (auto simp add: task_invariant_def quiet_def)

lemma task_invariant_reset: "task_invariant c \<Longrightarrow> task_invariant (HeartbeatTask_reset c)"
  by (auto simp add: task_invariant_def HeartbeatTask_reset_def client_unschedule_def
      client_schedule_def Let_def)

lemma task_invariant_call:
  "task_invariant c \<Longrightarrow> \<not> request_in_flight (heartbeat_task c) \<Longrightarrow> scheduled (client c) = None \<Longrightarrow>
   task_invariant (HeartbeatTask_call c)"
  by (auto simp add: task_invariant_def HeartbeatTask_call_def coordinator_unknown_def
      coordinator_dead_def client_schedule_def send_heartbeat_request_def client_send_def
      Let_def split: option.splits)

lemma task_invariant_fire: "task_invariant c \<Longrightarrow> task_invariant (fire c)"
proof (cases "scheduled (client c)")
  case None
  then show "task_invariant c \<Longrightarrow> task_invariant (fire c)"
    by (simp add: fire_def)
next
  case (Some at)
  assume inv: "task_invariant c"
  have "task_invariant (client_unschedule c)"
    and "\<not> request_in_flight (heartbeat_task (client_unschedule c))"
    and "scheduled (client (client_unschedule c)) = None"
    using inv Some by (auto simp add: task_invariant_def client_unschedule_def)
  then have "task_invariant (HeartbeatTask_call (client_unschedule c))"
    by (rule task_invariant_call)
  then show "task_invariant (fire c)"
    using inv Some by (simp add: fire_def)
qed

lemma task_invariant_callbacks:
  "in_flight_heartbeats (client c) = 0 \<Longrightarrow> task_invariant (handle_heartbeat_success c)"
  "in_flight_heartbeats (client c) = 0 \<Longrightarrow> task_invariant (handle_heartbeat_failure c)"
  by (simp_all add: task_invariant_def handle_heartbeat_success_def handle_heartbeat_failure_def
      client_schedule_def Let_def)

lemma in_flight_handle_heartbeat_response:
  "in_flight_heartbeats (client (snd (handle_heartbeat_response resp c))) =
     in_flight_heartbeats (client c)"
  "fst (handle_heartbeat_response resp c) \<noteq> Pending"
  by (simp_all add: handle_heartbeat_response_def coordinator_dead_def Let_def)

lemma task_invariant_heartbeat_reply:
  assumes "task_invariant c"
  shows "task_invariant (heartbeat_reply r c)"
proof (cases "in_flight_heartbeats (client c) = 0")
  case True
  then show ?thesis using assms by (simp add: heartbeat_reply_def)
next
  case False
  then have one: "in_flight_heartbeats (client c) = 1"
    using assms by (simp add: task_invariant_def)
  let ?c0 = "c\<lparr>client := (client c)\<lparr>in_flight_heartbeats := in_flight_heartbeats (client c) - 1\<rparr>\<rparr>"
  have z0: "in_flight_heartbeats (client ?c0) = 0"
    using one by simp
  show ?thesis
  proof (cases r)
    case (Delivered resp)
    let ?fc = "handle_heartbeat_response resp ?c0"
    have z: "in_flight_heartbeats (client (snd ?fc)) = 0"
      using z0 in_flight_handle_heartbeat_response(1) [of resp ?c0] by simp
    have np: "fst ?fc \<noteq> Pending"
      by (rule in_flight_handle_heartbeat_response(2))
    have "heartbeat_reply r c =
        (case fst ?fc of Succeeded v \<Rightarrow> handle_heartbeat_success (snd ?fc)
         | Failed e \<Rightarrow> handle_heartbeat_failure (snd ?fc) | Pending \<Rightarrow> snd ?fc)"
      using False Delivered by (simp only: heartbeat_reply_def Let_def reply.case if_False)
    then show ?thesis
      using z np task_invariant_callbacks [of "snd ?fc"] by (cases "fst ?fc") simp_all
  next
    case (SendFailed e)
    have z: "in_flight_heartbeats (client (coordinator_dead ?c0)) = 0"
      using z0 by (simp add: coordinator_dead_def)
    have "heartbeat_reply r c = handle_heartbeat_failure (coordinator_dead ?c0)"
      using False SendFailed
      by (simp only: heartbeat_reply_def Let_def reply.case if_False failed_request_def
          fst_conv snd_conv future.case)
    then show ?thesis
      using z task_invariant_callbacks(2) by simp
  qed
qed

lemma task_invariant_close: "task_invariant c \<Longrightarrow> close c = Some c' \<Longrightarrow> task_invariant c'"
  by (auto simp add: task_invariant_def close_def client_unschedule_def coordinator_unknown_def
      coordinator_dead_def client_send_def Let_def split: option.splits if_splits list.splits)

lemma task_invariant_ensure_active_group:
  assumes "task_invariant c" and "ensure_active_group fuel c = Some (out, c')"
  shows "task_invariant c'"
proof (cases "need_rejoin c")
  case False
  then show ?thesis using assms by (simp add: ensure_active_group_def)
next
  case True
  let ?c1 = "if needs_join_prepare c then
               c\<lparr>trace := trace c @ [OnJoinPrepare (generation c) (member_id c)],
                 needs_join_prepare := False\<rparr>
             else c"
  have "ensure_active_group_loop fuel ?c1 = Some (out, c')"
    using assms True by (simp add: ensure_active_group_def Let_def)
  then have "quiet ?c1 c'"
    by (rule ensure_active_group_loop_quiet)
  moreover have "task_invariant ?c1"
    using assms(1) by (simp add: task_invariant_def)
  ultimately show ?thesis
    using task_invariant_quiet by blast
qed

lemma task_invariant_apply_op:
  assumes "task_invariant c" and "apply_op x c = Some c'"
  shows "task_invariant c'"
proof (cases x)
  case (EnsureActiveGroup fuel)
  then obtain out where "ensure_active_group fuel c = Some (out, c')"
    using assms(2) by auto
  then show ?thesis
    using assms(1) task_invariant_ensure_active_group by blast
next
  case (EnsureCoordinatorKnown fuel)
  then obtain out where "ensure_coordinator_known fuel c = Some (out, c')"
    using assms(2) by auto
  then show ?thesis
    using assms(1) ensure_coordinator_known_frame task_invariant_quiet by blast
next
  case CoordinatorUnknown
  then show ?thesis
    using assms quiet_coordinator_unknown [of c] task_invariant_quiet by auto
next
  case Close
  then show ?thesis using assms task_invariant_close by simp
next
  case Reset
  then show ?thesis using assms task_invariant_reset by auto
next
  case Fire
  then show ?thesis using assms task_invariant_fire by auto
next
  case (HeartbeatReply r)
  then show ?thesis using assms task_invariant_heartbeat_reply by auto
next
  case (Tick ms)
  then show ?thesis using assms by (auto simp add: task_invariant_def)
next
  case (Connections d r)
  then show ?thesis using assms by (auto simp add: task_invariant_def)
next
  case (Script rs)
  then show ?thesis using assms by (auto simp add: task_invariant_def)
qed

lemma task_invariant_run_ops:
  "task_invariant c \<Longrightarrow> run_ops xs c = Some c' \<Longrightarrow> task_invariant c'"
proof (induction xs arbitrary: c)
  case Nil
  then show ?case by simp
next
  case (Cons x xs)
  then obtain c1 where "apply_op x c = Some c1" and "run_ops xs c1 = Some c'"
    by (auto split: option.splits)
  then show ?case
    using Cons.IH Cons.prems(1) task_invariant_apply_op by blast
qed

text \<open>
  C3. In every state reached from \<^verbatim>\<open>__init__\<close> (on a transport with no heartbeat
  outstanding) by the operations of the coordinator, the task, the scheduler and the
  transport, at most one heartbeat request is outstanding. The flag
  \<open>request_in_flight\<close> is set exactly when one is, and then no firing is pending, so a
  firing issues a request only when the flag is false; \<^verbatim>\<open>reset()\<close> schedules no firing
  while the flag is set; both callbacks leave the flag cleared.
\<close>

theorem single_in_flight_heartbeat:
  assumes "in_flight_heartbeats cl = 0"
    and "run_ops xs (init cfg cl ptype protos assign t) = Some c"
  shows "in_flight_heartbeats (client c) \<le> 1 \<and>
         request_in_flight (heartbeat_task c) = (in_flight_heartbeats (client c) = 1) \<and>
         (request_in_flight (heartbeat_task c) \<longrightarrow> fire c = c) \<and>
         (request_in_flight (heartbeat_task c) \<longrightarrow>
            scheduled (client (HeartbeatTask_reset c)) = None) \<and>
         \<not> request_in_flight (heartbeat_task (handle_heartbeat_success c)) \<and>
         \<not> request_in_flight (heartbeat_task (handle_heartbeat_failure c))"
proof -
  have "task_invariant (init cfg cl ptype protos assign t)"
    using assms(1) by (simp add: task_invariant_def init_def)
  then have inv: "task_invariant c"
    using assms(2) task_invariant_run_ops by blast
  then have "request_in_flight (heartbeat_task c) \<longrightarrow> fire c = c"
    by (auto simp add: task_invariant_def fire_def)
  moreover have "request_in_flight (heartbeat_task c) \<longrightarrow>
      scheduled (client (HeartbeatTask_reset c)) = None"
    by (simp add: HeartbeatTask_reset_def client_unschedule_def Let_def)
  moreover have "\<not> request_in_flight (heartbeat_task (handle_heartbeat_success c))"
    and "\<not> request_in_flight (heartbeat_task (handle_heartbeat_failure c))"
    by (simp_all add: handle_heartbeat_success_def handle_heartbeat_failure_def
        client_schedule_def Let_def)
  ultimately show ?thesis
    using inv by (simp add: task_invariant_def)
qed

theorem single_in_flight_heartbeat_witness:
  "in_flight_heartbeats example_client = 0 \<and>
   map_option (\<lambda>c. (in_flight_heartbeats (client c), request_in_flight (heartbeat_task c),
                    scheduled (client c)))
     (run_ops [Script join_script, EnsureActiveGroup 5, Tick 3000, Fire, Reset, Fire]
        example_coordinator) = Some (1, True, None) \<and>
   in_flight_heartbeats (client (the
     (run_ops [Script join_script, EnsureActiveGroup 5, Tick 3000, Fire, Reset, Fire]
        example_coordinator))) \<le> 1"
proof -
  let ?xs = "[Script join_script, EnsureActiveGroup 5, Tick 3000, Fire, Reset, Fire]"
  have h1: "in_flight_heartbeats example_client = 0"
    by (simp add: example_client_def)
  have h2: "map_option (\<lambda>c. (in_flight_heartbeats (client c),
                request_in_flight (heartbeat_task c), scheduled (client c)))
              (run_ops ?xs example_coordinator) = Some (1, True, None)"
    by code_simp
  then obtain c where h3: "run_ops ?xs example_coordinator = Some c"
    by (cases "run_ops ?xs example_coordinator") auto
  show ?thesis
    using h1 h2 h3
      single_in_flight_heartbeat [OF h1 h3 [unfolded example_coordinator_def]]
    by simp
qed

subsection \<open>The state of a member\<close>

lemma well_formed_quiet: "well_formed_script c \<Longrightarrow> quiet c c' \<Longrightarrow> well_formed_script c'"
  by (auto simp add: quiet_def)

lemma joined_same_member: "joined_state c \<Longrightarrow> same_member c c' \<Longrightarrow> joined_state c'"
  by (auto simp add: joined_state_def same_member_def)

lemma same_member_send_sync: "same_member c (snd (send_sync_group_request req c))"
  by (simp add: same_member_def send_sync_group_request_def coordinator_unknown_def
      coordinator_dead_def client_send_def split: option.splits)

lemma same_member_on_join:
  "same_member c (snd (on_join_follower c))"
  "same_member c (snd (on_join_leader resp c))"
proof -
  show "same_member c (snd (on_join_follower c))"
    by (simp add: on_join_follower_def same_member_send_sync)
  let ?c1 = "c\<lparr>trace := trace c @
               [PerformAssignment (leader_id resp) (group_protocol resp) (members resp)]\<rparr>"
  have m1: "same_member c ?c1"
    by (simp add: same_member_def)
  show "same_member c (snd (on_join_leader resp c))"
    using m1 same_member_trans [OF m1 same_member_send_sync]
    by (simp add: on_join_leader_def Let_def split: sum.splits)
qed

lemma joined_handle_join:
  assumes "rejoin_needed c" and "well_formed_reply (Delivered resp)"
  shows "joined_state (snd (handle_join_group_response resp c))"
proof (cases "for_code (error_code resp) = NoError")
  case True
  let ?c1 = "c\<lparr>member_id := resp_member_id resp, generation := generation_id resp,
               rejoin_needed := False, protocol := Some (group_protocol resp)\<rparr>"
  have "error_code resp = 0"
    using True by (simp add: for_code_NoError)
  then have j1: "joined_state ?c1"
    using assms(2) by (simp add: joined_state_def well_formed_reply_def)
  have "joined_state (snd (on_join_leader resp ?c1))"
    and "joined_state (snd (on_join_follower ?c1))"
    using j1 joined_same_member same_member_on_join by blast+
  then show ?thesis
    using True by (simp add: handle_join_group_response_def Let_def)
next
  case False
  then have "rejoin_needed (snd (handle_join_group_response resp c))"
    using assms(1) by (simp add: handle_join_group_response_def Let_def coordinator_dead_def)
  then show ?thesis
    by (simp add: joined_state_def)
qed

lemma joined_handle_sync:
  "joined_state c \<Longrightarrow> joined_state (snd (handle_sync_group_response resp c))"
  by (simp add: joined_state_def handle_sync_group_response_def Let_def coordinator_dead_def)

lemma same_member_perform_group_join: "same_member c (snd (perform_group_join c))"
  by (simp add: same_member_def perform_group_join_def coordinator_unknown_def
      coordinator_dead_def client_send_def Let_def split: option.splits)

lemma await_cases:
  assumes "await kind handler (fut, c) = Some (fut', c')"
  obtains (finished) "fut \<noteq> Pending" and "c' = c"
  | (response) resp rs where "replies (client c) kind = Delivered resp # rs"
      and "c' = snd (handler resp
                  (c\<lparr>client := (client c)\<lparr>replies := (replies (client c))(kind := rs)\<rparr>\<rparr>))"
  | (send_failed) e rs where "replies (client c) kind = SendFailed e # rs"
      and "c' = coordinator_dead
                  (c\<lparr>client := (client c)\<lparr>replies := (replies (client c))(kind := rs)\<rparr>\<rparr>)"
proof (cases fut)
  case Pending
  then obtain r rs where rs: "replies (client c) kind = r # rs"
    using assms by (auto simp add: await_def split: list.splits)
  show ?thesis
  proof (cases r)
    case (Delivered resp)
    then show ?thesis
      using assms Pending rs response [of resp rs] by (auto simp add: await_def Let_def)
  next
    case (SendFailed e)
    then show ?thesis
      using assms Pending rs send_failed [of e rs]
      by (auto simp add: await_def Let_def failed_request_def)
  qed
next
  case (Succeeded v)
  then show ?thesis
    using assms finished by (auto simp add: await_def)
next
  case (Failed e)
  then show ?thesis
    using assms finished by (auto simp add: await_def)
qed

lemma joined_join:
  assumes "rejoin_needed c" and "well_formed_script c"
    and "poll_group_join (perform_group_join c) = Some (fut, c')"
  shows "joined_state c'"
proof -
  obtain f0 c0 where pj: "perform_group_join c = (f0, c0)"
    by (cases "perform_group_join c")
  have r0: "rejoin_needed c0"
    using pj assms(1) same_member_perform_group_join [of c] by (simp add: same_member_def)
  have w0: "well_formed_script c0"
    using pj assms(2) quiet_perform_group_join [of c] well_formed_quiet by fastforce
  from assms(3) pj obtain f1 c1
    where a1: "await JoinGroupApi handle_join_group_response (f0, c0) = Some (f1, c1)"
      and a2: "await SyncGroupApi handle_sync_group_response (f1, c1) = Some (fut, c')"
    by (auto simp add: poll_group_join_def split: option.splits)
  from a1 have j1: "joined_state c1"
  proof (cases rule: await_cases)
    case finished
    then show ?thesis using r0 by (simp add: joined_state_def)
  next
    case (response resp rs)
    have "well_formed_reply (Delivered resp)"
      using w0 response(1) by (simp add: well_formed_script_def)
    then show ?thesis
      using response(2) r0 joined_handle_join by simp
  next
    case (send_failed e rs)
    then show ?thesis
      using r0 by (simp add: joined_state_def coordinator_dead_def)
  qed
  from a2 show ?thesis
  proof (cases rule: await_cases)
    case finished
    then show ?thesis using j1 by simp
  next
    case (response resp rs)
    have "joined_state (c1\<lparr>client := (client c1)\<lparr>replies := (replies (client c1))(SyncGroupApi := rs)\<rparr>\<rparr>)"
      using j1 by (simp add: joined_state_def)
    then show ?thesis
      using response(2) joined_handle_sync by simp
  next
    case (send_failed e rs)
    then show ?thesis
      using j1 by (simp add: joined_state_def coordinator_dead_def)
  qed
qed

lemma ensure_active_group_loop_joined:
  "ensure_active_group_loop n c = Some (out, c') \<Longrightarrow> well_formed_script c \<Longrightarrow>
   joined_state c \<Longrightarrow> joined_state c'"
proof (induction n arbitrary: c)
  case 0
  then show ?case by simp
next
  case (Suc n)
  show ?case
  proof (cases "need_rejoin c")
    case False
    then show ?thesis using Suc.prems by simp
  next
    case True
    from Suc.prems(1) True obtain o1 c1 where ek: "ensure_coordinator_known n c = Some (o1, c1)"
      by (cases "ensure_coordinator_known n c") auto
    have f1: "quiet c c1" "same_member c c1"
      using ensure_coordinator_known_frame [OF ek] by simp_all
    have w1: "well_formed_script c1" and j1: "joined_state c1" and r1: "rejoin_needed c1"
      using f1 Suc.prems(2,3) True well_formed_quiet joined_same_member
      by (auto simp add: same_member_def need_rejoin_def)
    show ?thesis
    proof (cases o1)
      case (Raised e)
      then show ?thesis using Suc.prems(1) True ek j1 by simp
    next
      case Returned
      from Suc.prems(1) True ek Returned obtain fut c2
        where pj: "poll_group_join (perform_group_join c1) = Some (fut, c2)"
        by (cases "poll_group_join (perform_group_join c1)") auto
      have w2: "well_formed_script c2"
        using w1 quiet_join [OF pj] well_formed_quiet by blast
      have j2: "joined_state c2"
        using joined_join [OF r1 w1 pj] .
      show ?thesis
      proof (cases fut)
        case Pending
        then show ?thesis using Suc.prems(1) True ek Returned pj by simp
      next
        case (Succeeded b)
        show ?thesis
        proof (cases "protocol c2")
          case None
          then show ?thesis using Suc.prems(1) True ek Returned pj Succeeded j2 by simp
        next
          case (Some p)
          let ?c4 = "c2\<lparr>trace := trace c2 @
                          [OnJoinComplete (generation c2) (member_id c2) p b],
                        needs_join_prepare := True\<rparr>"
          have "ensure_active_group_loop n (HeartbeatTask_reset ?c4) = Some (out, c')"
            using Suc.prems(1) True ek Returned pj Succeeded Some by (simp add: Let_def)
          moreover have "well_formed_script (HeartbeatTask_reset ?c4)"
            using w2 by (simp add: well_formed_script_def HeartbeatTask_reset_def
                client_unschedule_def client_schedule_def Let_def)
          moreover have "joined_state (HeartbeatTask_reset ?c4)"
            using j2 by (simp add: joined_state_def HeartbeatTask_reset_def
                client_unschedule_def client_schedule_def Let_def)
          ultimately show ?thesis
            using Suc.IH by blast
        qed
      next
        case (Failed e)
        let ?c3 = "sleep (retry_backoff_ms (config c2)) c2"
        have s3: "well_formed_script ?c3" "joined_state ?c3"
          using w2 j2 by (simp_all add: well_formed_script_def joined_state_def sleep_def)
        have step: "ensure_active_group_loop (Suc n) c =
            (if isinstance e
                  [UnknownMemberIdError, RebalanceInProgressError, IllegalGenerationError]
             then ensure_active_group_loop n c2
             else if \<not> future_retriable e then Some (Raised e, c2)
             else ensure_active_group_loop n ?c3)"
          using True ek Returned pj Failed by simp
        have "c' = c2 \<or> ensure_active_group_loop n c2 = Some (out, c') \<or>
              ensure_active_group_loop n ?c3 = Some (out, c')"
          using Suc.prems(1) unfolding step by (simp split: if_splits)
        then show ?thesis
          using Suc.IH w2 j2 s3 by blast
      qed
    qed
  qed
qed

lemma joined_ensure_active_group:
  assumes "ensure_active_group fuel c = Some (out, c')"
    and "well_formed_script c" and "joined_state c"
  shows "joined_state c' \<and> well_formed_script c'"
proof (cases "need_rejoin c")
  case False
  then show ?thesis using assms by (simp add: ensure_active_group_def)
next
  case True
  let ?c1 = "if needs_join_prepare c then
               c\<lparr>trace := trace c @ [OnJoinPrepare (generation c) (member_id c)],
                 needs_join_prepare := False\<rparr>
             else c"
  have lp: "ensure_active_group_loop fuel ?c1 = Some (out, c')"
    using assms(1) True by (simp add: ensure_active_group_def Let_def)
  have w1: "well_formed_script ?c1" and j1: "joined_state ?c1"
    using assms(2,3) by (simp_all add: well_formed_script_def joined_state_def)
  show ?thesis
    using ensure_active_group_loop_joined [OF lp w1 j1]
      well_formed_quiet [OF w1 ensure_active_group_loop_quiet [OF lp]] by simp
qed

lemma joined_close:
  "close c = Some c' \<Longrightarrow> well_formed_script c \<Longrightarrow> joined_state c' \<and> well_formed_script c'"
  by (auto simp add: close_def joined_state_def well_formed_script_def client_unschedule_def
      coordinator_unknown_def coordinator_dead_def client_send_def Let_def
      split: option.splits if_splits list.splits)

lemma joined_call:
  "joined_state c \<Longrightarrow> well_formed_script c \<Longrightarrow>
   joined_state (HeartbeatTask_call c) \<and> well_formed_script (HeartbeatTask_call c)"
  by (auto simp add: joined_state_def well_formed_script_def HeartbeatTask_call_def
      coordinator_unknown_def coordinator_dead_def client_schedule_def send_heartbeat_request_def
      client_send_def Let_def split: option.splits)

lemma joined_fire:
  assumes "joined_state c" and "well_formed_script c"
  shows "joined_state (fire c) \<and> well_formed_script (fire c)"
proof -
  have "joined_state (client_unschedule c)" and "well_formed_script (client_unschedule c)"
    using assms by (simp_all add: joined_state_def well_formed_script_def client_unschedule_def)
  then have "joined_state (HeartbeatTask_call (client_unschedule c)) \<and>
             well_formed_script (HeartbeatTask_call (client_unschedule c))"
    by (rule joined_call)
  then show ?thesis
    using assms by (simp add: fire_def split: option.splits)
qed

lemma joined_handle_heartbeat_response:
  "joined_state c \<Longrightarrow> joined_state (snd (handle_heartbeat_response resp c))"
  "replies (client (snd (handle_heartbeat_response resp c))) = replies (client c)"
  by (simp_all add: joined_state_def handle_heartbeat_response_def coordinator_dead_def Let_def)

lemma joined_callbacks:
  "joined_state (handle_heartbeat_success c) = joined_state c"
  "joined_state (handle_heartbeat_failure c) = joined_state c"
  "replies (client (handle_heartbeat_success c)) = replies (client c)"
  "replies (client (handle_heartbeat_failure c)) = replies (client c)"
  by (simp_all add: joined_state_def handle_heartbeat_success_def handle_heartbeat_failure_def
      client_schedule_def Let_def)

lemma joined_heartbeat_reply:
  assumes "joined_state c" and "well_formed_script c"
  shows "joined_state (heartbeat_reply r c) \<and> well_formed_script (heartbeat_reply r c)"
proof (cases "in_flight_heartbeats (client c) = 0")
  case True
  then show ?thesis using assms by (simp add: heartbeat_reply_def)
next
  case False
  let ?c0 = "c\<lparr>client := (client c)\<lparr>in_flight_heartbeats := in_flight_heartbeats (client c) - 1\<rparr>\<rparr>"
  have j0: "joined_state ?c0" and w0: "replies (client ?c0) = replies (client c)"
    using assms(1) by (simp_all add: joined_state_def)
  show ?thesis
  proof (cases r)
    case (Delivered resp)
    let ?fc = "handle_heartbeat_response resp ?c0"
    have eq: "heartbeat_reply r c =
        (case fst ?fc of Succeeded v \<Rightarrow> handle_heartbeat_success (snd ?fc)
         | Failed e \<Rightarrow> handle_heartbeat_failure (snd ?fc) | Pending \<Rightarrow> snd ?fc)"
      using False Delivered by (simp only: heartbeat_reply_def Let_def reply.case if_False)
    have "joined_state (snd ?fc)" and "replies (client (snd ?fc)) = replies (client c)"
      using j0 w0 joined_handle_heartbeat_response [where c = ?c0 and resp = resp] by simp_all
    then show ?thesis
      using assms(2) unfolding eq
      by (cases "fst ?fc") (simp_all add: joined_callbacks well_formed_script_def)
  next
    case (SendFailed e)
    have eq: "heartbeat_reply r c = handle_heartbeat_failure (coordinator_dead ?c0)"
      using False SendFailed
      by (simp only: heartbeat_reply_def Let_def reply.case if_False failed_request_def
          fst_conv snd_conv future.case)
    have "joined_state (coordinator_dead ?c0)"
      and "replies (client (coordinator_dead ?c0)) = replies (client c)"
      using j0 w0 by (simp_all add: joined_state_def coordinator_dead_def)
    then show ?thesis
      using assms(2) unfolding eq by (simp add: joined_callbacks well_formed_script_def)
  qed
qed

lemma joined_reset:
  "joined_state (HeartbeatTask_reset c) = joined_state c"
  "well_formed_script (HeartbeatTask_reset c) = well_formed_script c"
  by (simp_all add: joined_state_def well_formed_script_def HeartbeatTask_reset_def
      client_unschedule_def client_schedule_def Let_def)

lemma joined_apply_op:
  assumes "joined_state c \<and> well_formed_script c" and "well_formed_op x"
    and "apply_op x c = Some c'"
  shows "joined_state c' \<and> well_formed_script c'"
proof (cases x)
  case (EnsureActiveGroup fuel)
  then obtain out where "ensure_active_group fuel c = Some (out, c')"
    using assms(3) by auto
  then show ?thesis
    using assms(1) joined_ensure_active_group by blast
next
  case (EnsureCoordinatorKnown fuel)
  then obtain out where "ensure_coordinator_known fuel c = Some (out, c')"
    using assms(3) by auto
  then show ?thesis
    using assms(1) ensure_coordinator_known_frame well_formed_quiet joined_same_member by blast
next
  case CoordinatorUnknown
  then show ?thesis
    using assms(1,3) quiet_coordinator_unknown [of c] same_member_coordinator_unknown [of c]
      well_formed_quiet joined_same_member by auto
next
  case Close
  then show ?thesis using assms(1,3) joined_close by simp
next
  case Reset
  then show ?thesis
    using assms(1,3) joined_reset by auto
next
  case Fire
  then show ?thesis using assms(1,3) joined_fire by auto
next
  case (HeartbeatReply r)
  then show ?thesis using assms(1,3) joined_heartbeat_reply by auto
next
  case (Tick ms)
  then show ?thesis
    using assms(1,3) by (auto simp add: joined_state_def well_formed_script_def)
next
  case (Connections d r)
  then show ?thesis
    using assms(1,3) by (auto simp add: joined_state_def well_formed_script_def)
next
  case (Script rs)
  then show ?thesis
    using assms by (auto simp add: joined_state_def well_formed_script_def)
qed

lemma joined_run_ops:
  "joined_state c \<and> well_formed_script c \<Longrightarrow> list_all well_formed_op xs \<Longrightarrow>
   run_ops xs c = Some c' \<Longrightarrow> joined_state c' \<and> well_formed_script c'"
proof (induction xs arbitrary: c)
  case Nil
  then show ?case by simp
next
  case (Cons x xs)
  from Cons.prems(3) obtain c1 where a: "apply_op x c = Some c1" and r: "run_ops xs c1 = Some c'"
    by (auto split: option.splits)
  have "joined_state c1 \<and> well_formed_script c1"
    using joined_apply_op [OF Cons.prems(1) _ a] Cons.prems(2) by simp
  then show ?case
    using Cons.IH r Cons.prems(2) by simp
qed

text \<open>
  C1, as the code has it. In every state reached from \<^verbatim>\<open>__init__\<close> by the operations
  of the coordinator and of the heartbeat task, on a transport whose \<open>NoError\<close> JoinGroup
  responses carry a generation that is not negative and a member id that is not empty:
  if \<open>rejoin_needed\<close> is false, the generation is not negative and \<open>member_id\<close> is not the
  sentinel. Nothing is said of \<open>coordinator_id\<close>.
\<close>

theorem member_state_invariant:
  assumes "list_all well_formed_reply (replies cl JoinGroupApi)"
    and "list_all well_formed_op xs"
    and "run_ops xs (init cfg cl ptype protos assign t) = Some c"
  shows "joined_state c"
proof -
  have "joined_state (init cfg cl ptype protos assign t) \<and>
        well_formed_script (init cfg cl ptype protos assign t)"
    using assms(1) by (simp add: joined_state_def well_formed_script_def init_def)
  then show ?thesis
    using joined_run_ops assms(2,3) by blast
qed

theorem member_state_invariant_witness:
  "list_all well_formed_reply (replies example_client JoinGroupApi) \<and>
   list_all well_formed_op coordinator_moved_run \<and>
   map_option (\<lambda>c. (rejoin_needed c, generation c, member_id c))
     (run_ops coordinator_moved_run example_coordinator) = Some (False, 3, ''m1'') \<and>
   joined_state (the (run_ops coordinator_moved_run example_coordinator))"
proof -
  have h1: "list_all well_formed_reply (replies example_client JoinGroupApi)"
    by (simp add: example_client_def)
  have h2: "list_all well_formed_op coordinator_moved_run"
    by (simp add: coordinator_moved_run_def join_script_def well_formed_reply_def
        example_response_def UNKNOWN_MEMBER_ID_def)
  have h3: "map_option (\<lambda>c. (rejoin_needed c, generation c, member_id c))
              (run_ops coordinator_moved_run example_coordinator) = Some (False, 3, ''m1'')"
    by code_simp
  then obtain c where h4: "run_ops coordinator_moved_run example_coordinator = Some c"
    by (cases "run_ops coordinator_moved_run example_coordinator") auto
  show ?thesis
    using h1 h2 h3 h4
      member_state_invariant [OF h1 h2 h4 [unfolded example_coordinator_def]]
    by simp
qed

text \<open>
  C1 as stated fails: the invariant of the spec's data model does not hold in the spec's
  own scenario 4: after the
  heartbeat answered \<open>NotCoordinatorForGroupError\<close> the member is still in generation 3
  with \<open>rejoin_needed\<close> false, and \<open>coordinator_id\<close> is unset.
\<close>

theorem stable_state_counterexample:
  "map_option (\<lambda>c. (rejoin_needed c, generation c, member_id c, coordinator_id c, stable_state c))
     (run_ops coordinator_moved_run example_coordinator) = Some (False, 3, ''m1'', None, False)"
  by code_simp

subsection \<open>One iteration of the join loop\<close>

lemma coordinator_unknown_known:
  "coordinator_id c = Some node \<Longrightarrow> \<not> is_disconnected (client c) node \<Longrightarrow>
   ready (client c) node \<Longrightarrow> coordinator_unknown c = (False, c)"
  by (simp add: coordinator_unknown_def)

lemma ensure_coordinator_known_known:
  "coordinator_id c = Some node \<Longrightarrow> \<not> is_disconnected (client c) node \<Longrightarrow>
   ready (client c) node \<Longrightarrow> ensure_coordinator_known (Suc n) c = Some (Returned, c)"
  by (simp add: coordinator_unknown_known)

lemma perform_group_join_known:
  "coordinator_id c = Some node \<Longrightarrow> \<not> is_disconnected (client c) node \<Longrightarrow>
   ready (client c) node \<Longrightarrow>
   perform_group_join c = (Pending, client_send (Some node) (join_request c) c)"
  by (simp add: perform_group_join_def coordinator_unknown_known join_request_def)

lemma join_failure_codes:
  assumes "error_code resp = 25 \<or> error_code resp = 27 \<or> error_code resp = 22"
  shows "\<exists>e. handle_join_group_response resp c =
           (Failed e, c\<lparr>member_id := (if error_code resp = 25 then UNKNOWN_MEMBER_ID
                                       else member_id c)\<rparr>) \<and>
           isinstance e [UnknownMemberIdError, RebalanceInProgressError, IllegalGenerationError]"
  using assms by (auto simp add: handle_join_group_response_def)

subsection \<open>Adoption of the member id and the generation\<close>

lemma handle_join_success:
  assumes "coordinator_id c = Some node" and "\<not> is_disconnected (client c) node"
    and "ready (client c) node" and "error_code jr = 0"
    and "leader_id jr \<noteq> resp_member_id jr \<or>
         \<not> isl (perform_assignment c (leader_id jr) (group_protocol jr) (members jr))"
  shows "fst (handle_join_group_response jr c) = Pending \<and>
         member_id (snd (handle_join_group_response jr c)) = resp_member_id jr \<and>
         generation (snd (handle_join_group_response jr c)) = generation_id jr \<and>
         \<not> rejoin_needed (snd (handle_join_group_response jr c)) \<and>
         protocol (snd (handle_join_group_response jr c)) = Some (group_protocol jr) \<and>
         client (snd (handle_join_group_response jr c)) = client c \<and>
         config (snd (handle_join_group_response jr c)) = config c"
proof -
  let ?c1 = "c\<lparr>member_id := resp_member_id jr, generation := generation_id jr,
               rejoin_needed := False, protocol := Some (group_protocol jr)\<rparr>"
  let ?c2 = "?c1\<lparr>trace := trace ?c1 @
               [PerformAssignment (leader_id jr) (group_protocol jr) (members jr)]\<rparr>"
  have k1: "coordinator_unknown ?c1 = (False, ?c1)" "coordinator_unknown ?c2 = (False, ?c2)"
    using assms(1-3) by (simp_all add: coordinator_unknown_def)
  have nf: "for_code (error_code jr) = NoError"
    using assms(4) by simp
  show ?thesis
  proof (cases "leader_id jr = resp_member_id jr")
    case False
    then show ?thesis
      using nf k1
      by (simp add: handle_join_group_response_def on_join_follower_def
          send_sync_group_request_def client_send_def Let_def)
  next
    case True
    then obtain a where "perform_assignment c (leader_id jr) (group_protocol jr) (members jr)
                           = Inr a"
      using assms(5)
      by (cases "perform_assignment c (leader_id jr) (group_protocol jr) (members jr)") auto
    then show ?thesis
      using True nf k1
      by (simp add: handle_join_group_response_def on_join_leader_def
          send_sync_group_request_def client_send_def Let_def)
  qed
qed

lemma poll_group_join_success:
  assumes "coordinator_id c = Some node" and "\<not> is_disconnected (client c) node"
    and "ready (client c) node"
    and "replies (client c) JoinGroupApi = Delivered jr # rest_j"
    and "replies (client c) SyncGroupApi = Delivered sr # rest_s"
    and "error_code jr = 0" and "error_code sr = 0"
    and "leader_id jr \<noteq> resp_member_id jr \<or>
         \<not> isl (perform_assignment c (leader_id jr) (group_protocol jr) (members jr))"
  shows "\<exists>c2. poll_group_join (perform_group_join c) = Some (Succeeded (member_assignment sr), c2) \<and>
           member_id c2 = resp_member_id jr \<and> generation c2 = generation_id jr \<and>
           \<not> rejoin_needed c2 \<and> protocol c2 = Some (group_protocol jr)"
proof -
  let ?c0 = "client_send (Some node) (join_request c) c"
  let ?c1 = "?c0\<lparr>client := (client ?c0)\<lparr>replies := (replies (client ?c0))(JoinGroupApi := rest_j)\<rparr>\<rparr>"
  let ?fc = "handle_join_group_response jr ?c1"
  have pj: "perform_group_join c = (Pending, ?c0)"
    using assms(1-3) by (rule perform_group_join_known)
  have a1: "await JoinGroupApi handle_join_group_response (Pending, ?c0) = Some ?fc"
    using assms(4) by (simp add: await_def client_send_def Let_def)
  have hj: "fst ?fc = Pending \<and> member_id (snd ?fc) = resp_member_id jr \<and>
            generation (snd ?fc) = generation_id jr \<and> \<not> rejoin_needed (snd ?fc) \<and>
            protocol (snd ?fc) = Some (group_protocol jr) \<and> client (snd ?fc) = client ?c1 \<and>
            config (snd ?fc) = config ?c1"
    using assms(1-3,6,8) by (intro handle_join_success [where node = node])
      (simp_all add: client_send_def)
  let ?c2 = "snd ?fc"
  let ?c3 = "?c2\<lparr>client := (client ?c2)\<lparr>replies := (replies (client ?c2))(SyncGroupApi := rest_s)\<rparr>\<rparr>"
  have rs: "replies (client ?c2) SyncGroupApi = Delivered sr # rest_s"
    using hj assms(5) by (simp add: client_send_def)
  have a2: "await SyncGroupApi handle_sync_group_response ?fc =
              Some (Succeeded (member_assignment sr), ?c3)"
    using hj rs assms(7)
    by (cases ?fc) (simp add: await_def handle_sync_group_response_def Let_def)
  have "poll_group_join (perform_group_join c) = Some (Succeeded (member_assignment sr), ?c3)"
    using pj a1 a2 by (simp add: poll_group_join_def)
  moreover have "member_id ?c3 = resp_member_id jr \<and> generation ?c3 = generation_id jr \<and>
      \<not> rejoin_needed ?c3 \<and> protocol ?c3 = Some (group_protocol jr)"
    using hj by simp
  ultimately show ?thesis
    by blast
qed

text \<open>
  C2. When the coordinator is known and connected, the JoinGroup request is answered
  \<open>NoError\<close> with member id \<open>m\<close> and generation \<open>g\<close>, and the SyncGroup request that
  follows is answered \<open>NoError\<close> (the member being a follower, or a leader whose
  assignment does not raise), \<^verbatim>\<open>ensure_active_group\<close> returns with \<open>member_id = m\<close>,
  \<open>generation = g\<close>, \<open>protocol\<close> the response's, \<open>rejoin_needed\<close> false, and its last
  action is the call \<^verbatim>\<open>_on_join_complete(g, m, protocol, member_assignment)\<close> with the
  assignment of the SyncGroup response.
\<close>

theorem join_sync_adoption:
  assumes "need_rejoin c"
    and "coordinator_id c = Some node" and "\<not> is_disconnected (client c) node"
    and "ready (client c) node"
    and "replies (client c) JoinGroupApi = Delivered jr # rest_j"
    and "replies (client c) SyncGroupApi = Delivered sr # rest_s"
    and "error_code jr = 0" and "error_code sr = 0"
    and "leader_id jr \<noteq> resp_member_id jr \<or>
         \<not> isl (perform_assignment c (leader_id jr) (group_protocol jr) (members jr))"
  shows "map_option
           (\<lambda>(out, c'). (out, member_id c', generation c', protocol c', rejoin_needed c',
                         last (trace c')))
           (ensure_active_group (Suc (Suc fuel)) c) =
         Some (Returned, resp_member_id jr, generation_id jr, Some (group_protocol jr), False,
               OnJoinComplete (generation_id jr) (resp_member_id jr) (group_protocol jr)
                 (member_assignment sr))"
proof -
  let ?c1 = "if needs_join_prepare c then
               c\<lparr>trace := trace c @ [OnJoinPrepare (generation c) (member_id c)],
                 needs_join_prepare := False\<rparr>
             else c"
  have eg: "ensure_active_group (Suc (Suc fuel)) c = ensure_active_group_loop (Suc (Suc fuel)) ?c1"
    using assms(1) by (simp add: ensure_active_group_def Let_def del: ensure_active_group_loop.simps)
  have k: "coordinator_id ?c1 = Some node" "\<not> is_disconnected (client ?c1) node"
    "ready (client ?c1) node" "need_rejoin ?c1"
    "replies (client ?c1) JoinGroupApi = Delivered jr # rest_j"
    "replies (client ?c1) SyncGroupApi = Delivered sr # rest_s"
    "leader_id jr \<noteq> resp_member_id jr \<or>
     \<not> isl (perform_assignment ?c1 (leader_id jr) (group_protocol jr) (members jr))"
    using assms by (simp_all add: need_rejoin_def)
  obtain c2 where pj: "poll_group_join (perform_group_join ?c1) =
                         Some (Succeeded (member_assignment sr), c2)"
    and f2: "member_id c2 = resp_member_id jr" "generation c2 = generation_id jr"
      "\<not> rejoin_needed c2" "protocol c2 = Some (group_protocol jr)"
    using poll_group_join_success [OF k(1-3) k(5,6) assms(7,8) k(7)] by blast
  let ?c4 = "c2\<lparr>trace := trace c2 @
                  [OnJoinComplete (generation_id jr) (resp_member_id jr) (group_protocol jr)
                     (member_assignment sr)],
                needs_join_prepare := True\<rparr>"
  have ek: "ensure_coordinator_known (Suc fuel) ?c1 = Some (Returned, ?c1)"
    using k(1-3) by (rule ensure_coordinator_known_known)
  have l1: "ensure_active_group_loop (Suc (Suc fuel)) ?c1 =
              ensure_active_group_loop (Suc fuel) (HeartbeatTask_reset ?c4)"
    using k(4) ek pj f2
    by (subst ensure_active_group_loop.simps)
      (simp add: Let_def del: ensure_active_group_loop.simps ensure_coordinator_known.simps)
  have r4: "member_id (HeartbeatTask_reset ?c4) = resp_member_id jr"
    "generation (HeartbeatTask_reset ?c4) = generation_id jr"
    "protocol (HeartbeatTask_reset ?c4) = Some (group_protocol jr)"
    "\<not> rejoin_needed (HeartbeatTask_reset ?c4)"
    "last (trace (HeartbeatTask_reset ?c4)) =
       OnJoinComplete (generation_id jr) (resp_member_id jr) (group_protocol jr)
         (member_assignment sr)"
    using f2 by (simp_all add: HeartbeatTask_reset_def client_unschedule_def
        client_schedule_def Let_def)
  have l2: "ensure_active_group_loop (Suc fuel) (HeartbeatTask_reset ?c4) =
              Some (Returned, HeartbeatTask_reset ?c4)"
    using r4(4) by (simp add: need_rejoin_def)
  show ?thesis
    unfolding eg l1 l2 using r4 by simp
qed

theorem join_sync_adoption_witness:
  "need_rejoin joining_coordinator \<and>
   map_option
     (\<lambda>(out, c'). (out, member_id c', generation c', protocol c', rejoin_needed c',
                   last (trace c')))
     (ensure_active_group (Suc (Suc 0)) joining_coordinator) =
   Some (Returned, ''m1'', 3, Some ''range'', False, OnJoinComplete 3 ''m1'' ''range'' ''AB'')"
proof -
  let ?jr = "example_response\<lparr>generation_id := 3, resp_member_id := ''m1'',
               leader_id := ''m2'', group_protocol := ''range''\<rparr>"
  let ?sr = "example_response\<lparr>member_assignment := ''AB''\<rparr>"
  have h1: "need_rejoin joining_coordinator"
    and h2: "coordinator_id joining_coordinator = Some 7"
    and h3: "\<not> is_disconnected (client joining_coordinator) 7"
    and h4: "ready (client joining_coordinator) 7"
    and h5: "replies (client joining_coordinator) JoinGroupApi = Delivered ?jr # []"
    and h6: "replies (client joining_coordinator) SyncGroupApi = Delivered ?sr # []"
    and h7: "error_code ?jr = 0" and h8: "error_code ?sr = 0"
    and h9: "leader_id ?jr \<noteq> resp_member_id ?jr \<or>
             \<not> isl (perform_assignment joining_coordinator (leader_id ?jr) (group_protocol ?jr)
                      (members ?jr))"
    by (simp_all add: joining_coordinator_def example_coordinator_def example_client_def
        init_def need_rejoin_def join_script_def example_response_def)
  show ?thesis
    using h1 join_sync_adoption [OF h1 h2 h3 h4 h5 h6 h7 h8 h9, of 0]
    by (simp add: example_response_def)
qed

subsection \<open>Retry after a failed join\<close>

lemma join_failure_step:
  assumes "need_rejoin c"
    and "coordinator_id c = Some node" and "\<not> is_disconnected (client c) node"
    and "ready (client c) node"
    and "replies (client c) JoinGroupApi = Delivered resp # rest"
    and "error_code resp = 25 \<or> error_code resp = 27 \<or> error_code resp = 22"
  shows "ensure_active_group_loop (Suc (Suc fuel)) c =
           ensure_active_group_loop (Suc fuel) (retry_state c resp rest)"
proof -
  let ?c0 = "client_send (Some node) (join_request c) c"
  let ?c1 = "?c0\<lparr>client := (client ?c0)\<lparr>replies := (replies (client ?c0))(JoinGroupApi := rest)\<rparr>\<rparr>"
  obtain e where hj: "handle_join_group_response resp ?c1 =
      (Failed e, ?c1\<lparr>member_id := (if error_code resp = 25 then UNKNOWN_MEMBER_ID
                                     else member_id ?c1)\<rparr>)"
    and inst: "isinstance e
                 [UnknownMemberIdError, RebalanceInProgressError, IllegalGenerationError]"
    using join_failure_codes [OF assms(6)] by blast
  have rs: "?c1\<lparr>member_id := (if error_code resp = 25 then UNKNOWN_MEMBER_ID
                                 else member_id ?c1)\<rparr> = retry_state c resp rest"
    using assms(2) by (simp add: retry_state_def client_send_def)
  have pj: "poll_group_join (perform_group_join c) = Some (Failed e, retry_state c resp rest)"
    using assms(2-5) hj rs
    by (simp add: perform_group_join_known poll_group_join_def await_def client_send_def Let_def)
  show ?thesis
    using assms(1) pj inst ensure_coordinator_known_known [OF assms(2-4)]
    by (subst ensure_active_group_loop.simps) (simp del: ensure_active_group_loop.simps
        ensure_coordinator_known.simps)
qed

lemma follower_join_returns:
  assumes "need_rejoin c"
    and "coordinator_id c = Some node" and "\<not> is_disconnected (client c) node"
    and "ready (client c) node"
    and "replies (client c) JoinGroupApi = Delivered jr # rest_j"
    and "replies (client c) SyncGroupApi = Delivered sr # rest_s"
    and "error_code jr = 0" and "error_code sr = 0"
    and "leader_id jr \<noteq> resp_member_id jr"
  shows "map_option (\<lambda>(out, c'). (out, trace c', time_now c'))
           (ensure_active_group_loop (Suc (Suc fuel)) c) =
         Some (Returned,
               trace c @
               [Sent (Some node) (join_request c),
                Sent (Some node)
                  (SyncGroupRequest (group_id c) (generation_id jr) (resp_member_id jr) []),
                OnJoinComplete (generation_id jr) (resp_member_id jr) (group_protocol jr)
                  (member_assignment sr)],
               time_now c)"
proof -
  let ?c3 = "c\<lparr>trace := trace c @
                 [Sent (Some node) (join_request c),
                  Sent (Some node)
                    (SyncGroupRequest (group_id c) (generation_id jr) (resp_member_id jr) [])],
               client := (client c)\<lparr>replies :=
                 (replies (client c))(JoinGroupApi := rest_j, SyncGroupApi := rest_s)\<rparr>,
               member_id := resp_member_id jr, generation := generation_id jr,
               rejoin_needed := False, protocol := Some (group_protocol jr)\<rparr>"
  have pj: "poll_group_join (perform_group_join c) = Some (Succeeded (member_assignment sr), ?c3)"
    using assms(2-9)
    by (simp add: perform_group_join_known poll_group_join_def await_def client_send_def
        handle_join_group_response_def on_join_follower_def send_sync_group_request_def
        coordinator_unknown_def handle_sync_group_response_def Let_def)
  let ?c4 = "?c3\<lparr>trace := trace ?c3 @
                  [OnJoinComplete (generation_id jr) (resp_member_id jr) (group_protocol jr)
                     (member_assignment sr)],
                needs_join_prepare := True\<rparr>"
  have l1: "ensure_active_group_loop (Suc (Suc fuel)) c =
              ensure_active_group_loop (Suc fuel) (HeartbeatTask_reset ?c4)"
    using assms(1) pj ensure_coordinator_known_known [OF assms(2-4)]
    by (subst ensure_active_group_loop.simps)
      (simp add: Let_def del: ensure_active_group_loop.simps ensure_coordinator_known.simps)
  have r4: "\<not> rejoin_needed (HeartbeatTask_reset ?c4)"
    "time_now (HeartbeatTask_reset ?c4) = time_now c"
    "trace (HeartbeatTask_reset ?c4) =
       trace c @
       [Sent (Some node) (join_request c),
        Sent (Some node)
          (SyncGroupRequest (group_id c) (generation_id jr) (resp_member_id jr) []),
        OnJoinComplete (generation_id jr) (resp_member_id jr) (group_protocol jr)
          (member_assignment sr)]"
    by (simp_all add: HeartbeatTask_reset_def client_unschedule_def client_schedule_def Let_def)
  have l2: "ensure_active_group_loop (Suc fuel) (HeartbeatTask_reset ?c4) =
              Some (Returned, HeartbeatTask_reset ?c4)"
    using r4(1) by (simp add: need_rejoin_def)
  show ?thesis
    unfolding l1 l2 using r4 by simp
qed

text \<open>
  C5. On a JoinGroup response with error code 25 the handler resets \<open>member_id\<close> to the
  sentinel and fails the future with an \<open>UnknownMemberIdError\<close>. After a JoinGroup response
  with code 25, 27 or 22 the loop of \<^verbatim>\<open>ensure_active_group\<close> retries at once: when the
  broker admits the member as a follower on the second attempt, the call returns, what it
  has done is exactly the first JoinGroup request, the second JoinGroup request, the
  SyncGroup request and \<^verbatim>\<open>_on_join_complete\<close>, with no \<open>Sleep\<close> in between, and the
  clock has not moved. The second JoinGroup request carries the empty member id after
  code 25 (and the member id as it was after codes 27 and 22).
\<close>

theorem join_failure_retries_immediately:
  assumes "need_rejoin c"
    and "coordinator_id c = Some node" and "\<not> is_disconnected (client c) node"
    and "ready (client c) node"
    and "replies (client c) JoinGroupApi = Delivered resp # Delivered jr # rest_j"
    and "replies (client c) SyncGroupApi = Delivered sr # rest_s"
    and "error_code resp = 25 \<or> error_code resp = 27 \<or> error_code resp = 22"
    and "error_code jr = 0" and "error_code sr = 0"
    and "leader_id jr \<noteq> resp_member_id jr"
  shows "map_option (\<lambda>(out, c'). (out, trace c', time_now c'))
           (ensure_active_group_loop (Suc (Suc (Suc fuel))) c) =
         Some (Returned,
               trace c @
               [Sent (Some node)
                  (JoinGroupRequest (group_id c) (session_timeout_ms (config c)) (member_id c)
                     (protocol_type c) (group_protocols c)),
                Sent (Some node)
                  (JoinGroupRequest (group_id c) (session_timeout_ms (config c))
                     (if error_code resp = 25 then UNKNOWN_MEMBER_ID else member_id c)
                     (protocol_type c) (group_protocols c)),
                Sent (Some node)
                  (SyncGroupRequest (group_id c) (generation_id jr) (resp_member_id jr) []),
                OnJoinComplete (generation_id jr) (resp_member_id jr) (group_protocol jr)
                  (member_assignment sr)],
               time_now c) \<and>
         (error_code resp = 25 \<longrightarrow>
            handle_join_group_response resp c =
              (Failed (Instance UnknownMemberIdError [ArgStr (member_id c)]),
               c\<lparr>member_id := UNKNOWN_MEMBER_ID\<rparr>))"
proof -
  let ?r = "retry_state c resp (Delivered jr # rest_j)"
  have step: "ensure_active_group_loop (Suc (Suc (Suc fuel))) c =
      ensure_active_group_loop (Suc (Suc fuel)) ?r"
    using assms(1-5,7) by (rule join_failure_step)
  have k: "need_rejoin ?r" "coordinator_id ?r = Some node"
    "\<not> is_disconnected (client ?r) node" "ready (client ?r) node"
    "replies (client ?r) JoinGroupApi = Delivered jr # rest_j"
    "replies (client ?r) SyncGroupApi = Delivered sr # rest_s"
    using assms(1-4,6) by (simp_all add: retry_state_def need_rejoin_def)
  have f: "trace ?r = trace c @ [Sent (Some node) (join_request c)]"
    "time_now ?r = time_now c" "group_id ?r = group_id c"
    "join_request ?r =
       JoinGroupRequest (group_id c) (session_timeout_ms (config c))
         (if error_code resp = 25 then UNKNOWN_MEMBER_ID else member_id c)
         (protocol_type c) (group_protocols c)"
    using assms(2) by (simp_all add: retry_state_def join_request_def)
  have handler: "error_code resp = 25 \<longrightarrow>
      handle_join_group_response resp c =
        (Failed (Instance UnknownMemberIdError [ArgStr (member_id c)]),
         c\<lparr>member_id := UNKNOWN_MEMBER_ID\<rparr>)"
    by (simp add: handle_join_group_response_def)
  show ?thesis
    unfolding step
    using follower_join_returns [OF k assms(8-10), of fuel] f handler
    by (simp add: join_request_def del: ensure_active_group_loop.simps)
qed

theorem join_failure_retries_immediately_witness:
  "need_rejoin stale_coordinator \<and>
   map_option (\<lambda>(out, c'). (out, trace c', time_now c'))
     (ensure_active_group_loop (Suc (Suc (Suc 0))) stale_coordinator) =
   Some (Returned,
         [Sent (Some 7) (JoinGroupRequest ''kafka-python-default-group'' 30000 ''stale''
                           ''consumer'' [(''range'', ''meta'')]),
          Sent (Some 7) (JoinGroupRequest ''kafka-python-default-group'' 30000 []
                           ''consumer'' [(''range'', ''meta'')]),
          Sent (Some 7) (SyncGroupRequest ''kafka-python-default-group'' 3 ''m1'' []),
          OnJoinComplete 3 ''m1'' ''range'' ''AB''],
         0) \<and>
   handle_join_group_response (example_response\<lparr>error_code := 25\<rparr>) stale_coordinator =
     (Failed (Instance UnknownMemberIdError [ArgStr ''stale'']),
      stale_coordinator\<lparr>member_id := []\<rparr>)"
proof -
  let ?resp = "example_response\<lparr>error_code := 25\<rparr>"
  let ?jr = "example_response\<lparr>generation_id := 3, resp_member_id := ''m1'',
               leader_id := ''m2'', group_protocol := ''range''\<rparr>"
  let ?sr = "example_response\<lparr>member_assignment := ''AB''\<rparr>"
  have h1: "need_rejoin stale_coordinator"
    and h2: "coordinator_id stale_coordinator = Some 7"
    and h3: "\<not> is_disconnected (client stale_coordinator) 7"
    and h4: "ready (client stale_coordinator) 7"
    and h5: "replies (client stale_coordinator) JoinGroupApi =
               Delivered ?resp # Delivered ?jr # []"
    and h6: "replies (client stale_coordinator) SyncGroupApi = Delivered ?sr # []"
    and h7: "error_code ?resp = 25 \<or> error_code ?resp = 27 \<or> error_code ?resp = 22"
    and h8: "error_code ?jr = 0" and h9: "error_code ?sr = 0"
    and h10: "leader_id ?jr \<noteq> resp_member_id ?jr"
    by (simp_all add: stale_coordinator_def example_coordinator_def example_client_def init_def
        need_rejoin_def example_response_def)
  have f: "group_id stale_coordinator = ''kafka-python-default-group''"
    "session_timeout_ms (config stale_coordinator) = 30000"
    "member_id stale_coordinator = ''stale''"
    "protocol_type stale_coordinator = ''consumer''"
    "group_protocols stale_coordinator = [(''range'', ''meta'')]"
    "trace stale_coordinator = []" "time_now stale_coordinator = 0"
    by (simp_all add: stale_coordinator_def example_coordinator_def init_def DEFAULT_CONFIG_def)
  show ?thesis
    using h1 f join_failure_retries_immediately [OF h1 h2 h3 h4 h5 h6 h7 h8 h9 h10, of 0]
    by (simp add: UNKNOWN_MEMBER_ID_def example_response_def
        del: ensure_active_group_loop.simps)
qed

end
